theory Spec2Isabelle
  imports Complex_Main
begin

section \<open>JavaScript helpers\<close>

text \<open>
  A JavaScript \<^verbatim>\<open>number\<close> that the program only ever produces as an integer (scores,
  confidences, counts, slider values) is an \<^typ>\<open>int\<close>; a quotient of two such numbers is
  a \<^typ>\<open>rat\<close>. The quotients the program forms have numerators below \<open>2\<^sup>5\<^sup>3\<close> and
  denominators of at most 50, so two of them that differ are far more than a rounding
  error apart, and comparing or rounding the double gives what the rational gives.
  \<^verbatim>\<open>Math.random()\<close> is an input of the model: a rational \<open>r\<close> with \<open>0 \<le> r < 1\<close>, one
  per call. \<^verbatim>\<open>Math.round\<close> rounds to the nearest integer, a tie towards \<open>+\<infinity>\<close>.
  Strings are byte strings; a character outside ASCII is written as its UTF-8 bytes.
\<close>

definition Math_floor :: "rat \<Rightarrow> int" where
  "Math_floor x = \<lfloor>x\<rfloor>"

definition Math_round :: "rat \<Rightarrow> int" where
  "Math_round x = \<lfloor>x + 1 / 2\<rfloor>"

text \<open>
  \<^verbatim>\<open>s.includes(sub)\<close> on strings: \<open>sub\<close> occurs in \<open>s\<close> as a contiguous block.
  (\<open>includes\<close> is a keyword of Isabelle, hence the prefix.)
\<close>

fun str_includes :: "string \<Rightarrow> string \<Rightarrow> bool" where
  "str_includes [] sub = (sub = [])"
| "str_includes (c # cs) sub = (take (length sub) (c # cs) = sub \<or> str_includes cs sub)"

text \<open>\<^verbatim>\<open>s.toLowerCase()\<close>, on the ASCII letters; every other byte is kept.\<close>

definition toLowerCase :: "string \<Rightarrow> string" where
  "toLowerCase s =
     map (\<lambda>c. let n = (of_char c :: nat) in if 65 \<le> n \<and> n \<le> 90 then char_of (n + 32) else c) s"

text \<open>The decimal text of an integer, as a template literal prints it.\<close>

fun show_nat :: "nat \<Rightarrow> string" where
  "show_nat n =
     (if n < 10 then [''0123456789'' ! n]
      else show_nat (n div 10) @ [''0123456789'' ! (n mod 10)])"

declare show_nat.simps [simp del]

definition show_int :: "int \<Rightarrow> string" where
  "show_int i = (if i < 0 then CHR ''-'' # show_nat (nat (- i)) else show_nat (nat i))"

text \<open>\<^verbatim>\<open>xs.join(sep)\<close> and \<^verbatim>\<open>xs.slice(-n)\<close>.\<close>

fun join :: "string \<Rightarrow> string list \<Rightarrow> string" where
  "join sep [] = []"
| "join sep [x] = x"
| "join sep (x # y # ys) = x @ sep @ join sep (y # ys)"

definition slice_last :: "nat \<Rightarrow> 'a list \<Rightarrow> 'a list" where
  "slice_last n xs = drop (length xs - n) xs"

definition nl :: string where
  "nl = [CHR 0x0A]"

definition dq :: string where
  "dq = [CHR 0x22]"

text \<open>
  A JavaScript \<^verbatim>\<open>Map\<close> iterates in insertion order and \<^verbatim>\<open>set\<close> on a key it already
  has keeps the key's place: an association list, updated in place or extended at the end.
\<close>

type_synonym ('k, 'v) Map = "('k \<times> 'v) list"

definition Map_has :: "('k, 'v) Map \<Rightarrow> 'k \<Rightarrow> bool" where
  "Map_has m k = (k \<in> set (map fst m))"

definition Map_get :: "('k, 'v) Map \<Rightarrow> 'k \<Rightarrow> 'v option" where
  "Map_get m k = map_of m k"

fun Map_set :: "('k, 'v) Map \<Rightarrow> 'k \<Rightarrow> 'v \<Rightarrow> ('k, 'v) Map" where
  "Map_set [] k v = [(k, v)]"
| "Map_set ((k', v') # m) k v = (if k' = k then (k, v) # m else (k', v') # Map_set m k v)"

text \<open>
  \<^verbatim>\<open>Array.from(new Set(xs))\<close>: the elements of \<open>xs\<close> without repetition, each at the
  place of its first occurrence.
\<close>

definition Set_add :: "'a list \<Rightarrow> 'a \<Rightarrow> 'a list" where
  "Set_add s x = (if x \<in> set s then s else s @ [x])"

definition Set_from :: "'a list \<Rightarrow> 'a list" where
  "Set_from xs = fold (\<lambda>x s. Set_add s x) xs []"

text \<open>
  \<^verbatim>\<open>xs.sort((a, b) => key(b) - key(a))\<close>: the specification of \<^verbatim>\<open>Array.prototype.sort\<close>
  makes it stable, so the result is the one arrangement of \<open>xs\<close> in descending order of
  the key in which elements of equal key keep their order; \<^const>\<open>sort_key\<close> on the
  negated key computes it.
\<close>

definition sort_desc :: "('a \<Rightarrow> 'b::{linorder, uminus}) \<Rightarrow> 'a list \<Rightarrow> 'a list" where
  "sort_desc key xs = sort_key (\<lambda>x. - key x) xs"

section \<open>types.ts\<close>

record TextingTone =
  positivity :: int
  playfulness :: int
  responseLength :: int

text \<open>
  \<open>id\<close> is the name of a HOL constant, so the two \<open>id\<close> fields are \<open>profile_id\<close> and
  \<open>message_id\<close>. A \<^verbatim>\<open>Date\<close> is its time value, a natural number.
\<close>

record UserProfile =
  profile_id :: string
  name :: string
  ageRange :: string
  gender :: string
  interestedIn :: string
  bio :: string
  relationshipGoals :: string
  textingTone :: TextingTone
  selfRatedAttractiveness :: "int option"
  photos :: "string list"
  createdAt :: nat

datatype sender = user | agent

record ChatMessage =
  message_id :: string
  sender :: sender
  content :: string
  timestamp :: nat

record SimulationResult =
  match_archetype :: string
  match_initial_message :: string
  user_expected_reply :: string
  compatibility_score :: int
  potential_issue :: "string option"

record VibeSummary =
  overall_impression :: string
  strengths :: "string list"
  areas_to_improve :: "string list"

record SimulationSummary =
  total_simulations :: int
  average_compatibility :: int
  top_archetypes :: "string list"
  common_issues :: "string list"
  coaching_tips :: "string list"
  suggested_openers :: "string list"
  vibe_analysis :: VibeSummary

datatype verification_status = success | inconclusive | failed

record PhotoVerification =
  status :: verification_status
  confidence :: int
  message :: string

section \<open>photoVerification.ts\<close>

text \<open>
  \<^verbatim>\<open>analyzePhotos(photoPaths)\<close>; \<open>rnd\<close> is the value of the one \<^verbatim>\<open>Math.random()\<close> call
  of the multi-photo branch. The simulated processing delay is not part of the model.
\<close>

definition analyzePhotos :: "rat \<Rightarrow> string list \<Rightarrow> PhotoVerification" where
  "analyzePhotos rnd photoPaths =
    (if length photoPaths = 0 then
       \<lparr>status = failed, confidence = 0, message = ''No photos provided''\<rparr>
     else if length photoPaths = 1 then
       \<lparr>status = success, confidence = 75,
        message = ''Single photo uploaded. Consider adding more photos for better verification.''\<rparr>
     else
       let mockConfidence = 80 + Math_floor (rnd * 15) in
       if mockConfidence \<ge> 85 then
         \<lparr>status = success, confidence = mockConfidence,
          message = ''Photos appear consistent. Likely same person across all images.''\<rparr>
       else if mockConfidence \<ge> 70 then
         \<lparr>status = inconclusive, confidence = mockConfidence,
          message = ''Photos have some consistency but verification is inconclusive. This is just a basic check.''\<rparr>
       else
         \<lparr>status = failed, confidence = mockConfidence,
          message = ''Photos appear inconsistent. Please ensure all photos are of yourself.''\<rparr>)"

section \<open>storage.ts\<close>

record Storage =
  profile :: "UserProfile option"
  chatHistory :: "ChatMessage list"
  simulationResults :: "SimulationSummary option"

text \<open>The store of a process that has just started.\<close>

definition storage_init :: Storage where
  "storage_init = \<lparr>profile = None, chatHistory = [], simulationResults = None\<rparr>"

text \<open>
  \<^verbatim>\<open>Partial<UserProfile>\<close>: every field may be absent (\<open>None\<close>). The object spread
  \<^verbatim>\<open>{ ...this.profile, ...updates }\<close> takes a field from \<open>updates\<close> where it is present
  and from the stored profile otherwise.
\<close>

record PartialUserProfile =
  u_id :: "string option"
  u_name :: "string option"
  u_ageRange :: "string option"
  u_gender :: "string option"
  u_interestedIn :: "string option"
  u_bio :: "string option"
  u_relationshipGoals :: "string option"
  u_textingTone :: "TextingTone option"
  u_selfRatedAttractiveness :: "int option option"
  u_photos :: "string list option"
  u_createdAt :: "nat option"

definition no_updates :: PartialUserProfile where
  "no_updates =
     \<lparr>u_id = None, u_name = None, u_ageRange = None, u_gender = None, u_interestedIn = None,
      u_bio = None, u_relationshipGoals = None, u_textingTone = None,
      u_selfRatedAttractiveness = None, u_photos = None, u_createdAt = None\<rparr>"

definition spread :: "'a \<Rightarrow> 'a option \<Rightarrow> 'a" where
  "spread old upd = (case upd of None \<Rightarrow> old | Some v \<Rightarrow> v)"

definition spread_profile :: "UserProfile \<Rightarrow> PartialUserProfile \<Rightarrow> UserProfile" where
  "spread_profile p u =
     \<lparr>profile_id = spread (profile_id p) (u_id u),
      name = spread (name p) (u_name u),
      ageRange = spread (ageRange p) (u_ageRange u),
      gender = spread (gender p) (u_gender u),
      interestedIn = spread (interestedIn p) (u_interestedIn u),
      bio = spread (bio p) (u_bio u),
      relationshipGoals = spread (relationshipGoals p) (u_relationshipGoals u),
      textingTone = spread (textingTone p) (u_textingTone u),
      selfRatedAttractiveness = spread (selfRatedAttractiveness p) (u_selfRatedAttractiveness u),
      photos = spread (photos p) (u_photos u),
      createdAt = spread (createdAt p) (u_createdAt u)\<rparr>"

definition saveProfile :: "UserProfile \<Rightarrow> Storage \<Rightarrow> Storage" where
  "saveProfile p st = st\<lparr>profile := Some p\<rparr>"

definition getProfile :: "Storage \<Rightarrow> UserProfile option" where
  "getProfile st = profile st"

definition updateProfile :: "PartialUserProfile \<Rightarrow> Storage \<Rightarrow> UserProfile option \<times> Storage" where
  "updateProfile updates st =
     (case profile st of
        None \<Rightarrow> (None, st)
      | Some p \<Rightarrow> (Some (spread_profile p updates), st\<lparr>profile := Some (spread_profile p updates)\<rparr>))"

definition addMessage :: "ChatMessage \<Rightarrow> Storage \<Rightarrow> Storage" where
  "addMessage m st = st\<lparr>chatHistory := chatHistory st @ [m]\<rparr>"

definition getChatHistory :: "Storage \<Rightarrow> ChatMessage list" where
  "getChatHistory st = chatHistory st"

definition clearChatHistory :: "Storage \<Rightarrow> Storage" where
  "clearChatHistory st = st\<lparr>chatHistory := []\<rparr>"

definition saveSimulationResults :: "SimulationSummary \<Rightarrow> Storage \<Rightarrow> Storage" where
  "saveSimulationResults results st = st\<lparr>simulationResults := Some results\<rparr>"

definition getSimulationResults :: "Storage \<Rightarrow> SimulationSummary option" where
  "getSimulationResults st = simulationResults st"

definition reset :: "Storage \<Rightarrow> Storage" where
  "reset st = \<lparr>profile = None, chatHistory = [], simulationResults = None\<rparr>"


section \<open>llm.ts\<close>

datatype role = role_system | role_user | role_assistant

record LLMMessage =
  role :: role
  llm_content :: string

text \<open>
  What the hosted completion service does with one request is an input of the model: it
  answers with a text block, answers without one, or the request fails.
\<close>

datatype api_outcome = ApiText string | ApiNoText | ApiError

definition fallback_simulation_json :: string where
  "fallback_simulation_json =
     ''{'' @ dq @ ''match_archetype'' @ dq @ '':'' @ dq @ ''Adventurous Extrovert'' @ dq @ '','' @
     dq @ ''match_initial_message'' @ dq @ '':'' @ dq @
       ''Hey! I saw you mentioned hiking in your profile. What's been your favorite trail lately?'' @ dq @ '','' @
     dq @ ''user_expected_reply'' @ dq @ '':'' @ dq @
       ''Likely positive and enthusiastic, probably sharing a recent experience'' @ dq @ '','' @
     dq @ ''compatibility_score'' @ dq @ '':78,'' @
     dq @ ''potential_issue'' @ dq @ '':'' @ dq @
       ''May need to balance enthusiasm with asking follow-up questions to show genuine interest'' @ dq @ ''}''"

text \<open>The canned replies of the \<^verbatim>\<open>catch\<close> block; the first rule that matches wins.\<close>

definition fallback_reply :: "string \<Rightarrow> string" where
  "fallback_reply lastMessage =
     (if str_includes lastMessage ''analyze'' \<and> str_includes lastMessage ''vibe'' then
        ''Based on your texting style, you come across as friendly and approachable. You tend to use positive language and seem genuinely interested in getting to know people. Your responses are thoughtful but not overly long, which keeps conversations flowing naturally.''
      else if str_includes lastMessage ''simulation'' \<or> str_includes lastMessage ''scenario'' then
        fallback_simulation_json
      else if str_includes lastMessage ''coaching'' \<or> str_includes lastMessage ''tips'' then
        ''Here are some personalized tips:'' @ nl @
        ''1. Lead with specific details - instead of '' @ dq @ ''hi how are you'' @ dq @
          '', try referencing something from their profile'' @ nl @
        ''2. Ask open-ended questions that invite storytelling'' @ nl @
        ''3. Balance sharing about yourself with showing curiosity about them'' @ nl @
        ''4. Use your natural enthusiasm - it's one of your strengths!''
      else if str_includes lastMessage ''check in'' \<or> str_includes lastMessage ''feeling'' then
        ''I'd love to check in with you! How has your dating experience been lately? Have you noticed any patterns in your conversations, or is there anything you'd like to work on together?''
      else
        ''That's interesting! Tell me more about that. I'm here to help you become the best version of yourself in the dating world. What would you like to focus on today?'')"

text \<open>
  \<^verbatim>\<open>callLLM(messages)\<close>. \<open>None\<close> is the one way the promise is rejected: the request
  fails and \<open>messages\<close> is empty, so that reading the last message throws inside the
  \<^verbatim>\<open>catch\<close> block.
\<close>

definition callLLM :: "api_outcome \<Rightarrow> LLMMessage list \<Rightarrow> string option" where
  "callLLM api messages =
     (case api of
        ApiText t \<Rightarrow> Some t
      | ApiNoText \<Rightarrow> Some []
      | ApiError \<Rightarrow>
          (if messages = [] then None
           else Some (fallback_reply (toLowerCase (llm_content (last messages))))))"

text \<open>
  The vibe descriptor is typed \<^verbatim>\<open>any\<close>; its consumers read four fields and default the
  ones that are missing, so each field is optional.
\<close>

record VibeAnalysis =
  overall_tone :: "string option"
  energy_level :: "string option"
  communication_style :: "string option"
  key_traits :: "string list option"

definition analyzeVibe :: "api_outcome \<Rightarrow> string \<Rightarrow> string list \<Rightarrow> VibeAnalysis option" where
  "analyzeVibe api bio' chatHistory' =
     (let messages =
        [\<lparr>role = role_system,
          llm_content = ''You are an expert dating coach analyzing a user's personality and texting style. Provide detailed but constructive feedback.''\<rparr>,
         \<lparr>role = role_user,
          llm_content =
            ''Analyze this user's vibe based on their bio and chat messages:'' @ nl @ nl @
            ''Bio: '' @ bio' @ nl @ nl @
            ''Recent messages:'' @ nl @
            join nl chatHistory' @ nl @ nl @
            ''Provide a JSON response with: overall_tone (positive/negative), energy_level (high/low), communication_style (direct/indirect), and key_traits (array of 3-5 traits).''\<rparr>]
      in case callLLM api messages of
           None \<Rightarrow> None
         | Some response \<Rightarrow>
             Some \<lparr>overall_tone = Some ''positive'',
                   energy_level = Some ''medium-high'',
                   communication_style = Some ''friendly and direct'',
                   key_traits = Some [''enthusiastic'', ''curious'', ''thoughtful'', ''authentic'']\<rparr>)"

definition archetypes :: "string list" where
  "archetypes =
     [''Adventurous Extrovert'',
      ''Thoughtful Introvert'',
      ''Creative Free Spirit'',
      ''Ambitious Professional'',
      ''Laid-back Homebody'',
      ''Social Butterfly'',
      ''Intellectual Conversationalist'',
      ''Outdoor Enthusiast'',
      ''Art & Culture Lover'',
      ''Fitness Enthusiast'']"

definition openers :: "nat \<Rightarrow> string list" where
  "openers scenarioNumber =
     [''Hey! I noticed you mentioned '' @
        [''hiking'', ''reading'', ''cooking'', ''traveling''] ! (scenarioNumber mod 4) @
        '' in your profile. What got you into that?'',
      ''Hi there! Your profile caught my eye - you seem like someone who '' @
        [''values authenticity'', ''loves adventure'', ''enjoys deep conversations'', ''has great energy'']
          ! (scenarioNumber mod 4) @ ''.'',
      ''Hey! Quick question: '' @
        [''coffee or tea?'', ''beach or mountains?'', ''morning person or night owl?'',
         ''cook at home or try new restaurants?''] ! (scenarioNumber mod 4),
      ''Hi! I had to reach out - '' @
        [''your smile is contagious'', ''you seem like you'd be fun to talk to'',
         ''we have similar interests'', ''your vibe seems amazing''] ! (scenarioNumber mod 4) @ ''.'']"

text \<open>The last slot is \<^verbatim>\<open>null\<close>: no issue for some scenarios.\<close>

definition issues :: "string option list" where
  "issues =
     [Some ''May come across as too eager - balance enthusiasm with letting conversation breathe'',
      Some ''Could benefit from asking more follow-up questions to show genuine interest'',
      Some ''Responses might be too brief - consider sharing a bit more to keep momentum'',
      Some ''Watch for over-sharing too early - build rapport gradually'',
      None]"

text \<open>
  \<^verbatim>\<open>generateSimulation(profileSummary, scenarioNumber)\<close>; \<open>rnd\<close> is the value of its
  \<^verbatim>\<open>Math.random()\<close> call. The function never reads \<open>profileSummary\<close>, so the model has
  neither the argument nor \<^verbatim>\<open>buildProfileSummary\<close>, which only computes it. Every index
  is a remainder by the length of its list, so every read is in range.
\<close>

definition generateSimulation :: "rat \<Rightarrow> nat \<Rightarrow> SimulationResult" where
  "generateSimulation rnd scenarioNumber =
     (let archetype = archetypes ! (scenarioNumber mod length archetypes);
          compatibilityScore = 60 + Math_floor (rnd * 35)
      in \<lparr>match_archetype = archetype,
          match_initial_message =
            openers scenarioNumber ! (scenarioNumber mod length (openers scenarioNumber)),
          user_expected_reply = ''Likely positive and engaged, with reciprocal interest'',
          compatibility_score = compatibilityScore,
          potential_issue = issues ! (scenarioNumber mod length issues)\<rparr>)"


section \<open>simulations.ts\<close>

text \<open>\<^verbatim>\<open>v || d\<close> for an optional number and for an optional string.\<close>

definition num_or :: "int option \<Rightarrow> int \<Rightarrow> int" where
  "num_or v d = (case v of None \<Rightarrow> d | Some n \<Rightarrow> if n = 0 then d else n)"

definition str_or :: "string option \<Rightarrow> string \<Rightarrow> string" where
  "str_or v d = (case v of None \<Rightarrow> d | Some s \<Rightarrow> if s = [] then d else s)"

subsection \<open>Top archetypes\<close>

text \<open>
  One step of the \<^verbatim>\<open>forEach\<close> that groups the scores: a label not yet in the map gets
  an empty array, then the score is pushed onto the label's array. The array is in the
  map by then; the \<open>None\<close> branch is never taken.
\<close>

definition archetype_step ::
  "SimulationResult \<Rightarrow> (string, int list) Map \<Rightarrow> (string, int list) Map" where
  "archetype_step sim m =
     (let m1 = (if \<not> Map_has m (match_archetype sim) then Map_set m (match_archetype sim) [] else m)
      in case Map_get m1 (match_archetype sim) of
           None \<Rightarrow> m1
         | Some scores \<Rightarrow> Map_set m1 (match_archetype sim) (scores @ [compatibility_score sim]))"

definition archetypeScores :: "SimulationResult list \<Rightarrow> (string, int list) Map" where
  "archetypeScores simulations = fold archetype_step simulations []"

definition avgScore :: "int list \<Rightarrow> rat" where
  "avgScore scores = of_int (fold (\<lambda>b a. a + b) scores 0) / of_nat (length scores)"

definition topArchetypes :: "SimulationResult list \<Rightarrow> string list" where
  "topArchetypes simulations =
     map fst
       (take 5
          (sort_desc snd
             (map (\<lambda>(archetype, scores). (archetype, avgScore scores))
                (archetypeScores simulations))))"

subsection \<open>Common issues\<close>

definition simulation_issues :: "SimulationResult list \<Rightarrow> string list" where
  "simulation_issues simulations =
     map the (filter (\<lambda>issue. issue \<noteq> None) (map potential_issue simulations))"

definition issue_step :: "string \<Rightarrow> (string, int) Map \<Rightarrow> (string, int) Map" where
  "issue_step issue m = Map_set m issue (num_or (Map_get m issue) 0 + 1)"

definition issueFrequency :: "string list \<Rightarrow> (string, int) Map" where
  "issueFrequency issues' = fold issue_step issues' []"

definition commonIssues :: "SimulationResult list \<Rightarrow> string list" where
  "commonIssues simulations =
     map fst (take 3 (sort_desc snd (issueFrequency (simulation_issues simulations))))"

subsection \<open>Coaching tips\<close>

definition tip_strong :: string where
  "tip_strong = ''Your vibe is strong! Keep being authentic and let your personality shine through.''"

definition tip_potential :: string where
  "tip_potential = ''You have good potential. Focus on showing more of your unique interests and values.''"

definition tip_refine :: string where
  "tip_refine = ''Consider refining your approach. Be more specific about your interests and what makes you unique.''"

definition tip_positive :: string where
  "tip_positive = ''Try incorporating more positive language and enthusiasm in your messages.''"

definition tip_playful :: string where
  "tip_playful = ''Don't be afraid to be a bit more playful and show your sense of humor.''"

definition tip_depth :: string where
  "tip_depth = ''Balance your playfulness with moments of genuine depth and sincerity.''"

definition tip_brief :: string where
  "tip_brief = ''Your responses might be too brief. Try sharing a bit more to keep conversations flowing.''"

definition tip_concise :: string where
  "tip_concise = ''Keep your messages concise. Long responses can sometimes overwhelm the conversation.''"

definition tip_questions :: string where
  "tip_questions = ''Ask more open-ended questions to show genuine interest and keep the conversation balanced.''"

definition tip_breathe :: string where
  "tip_breathe = ''Let conversations breathe naturally. Sometimes less is more when building connection.''"

text \<open>
  \<^verbatim>\<open>generateCoachingTips\<close>: the array \<open>tips\<close> after each group of pushes, then its first
  five elements.
\<close>

definition generateCoachingTips ::
  "UserProfile \<Rightarrow> VibeAnalysis \<Rightarrow> string list \<Rightarrow> int \<Rightarrow> string list" where
  "generateCoachingTips profile' vibeAnalysis commonIssues' avgCompatibility =
     (let tips0 = [];
          tips1 =
            (if avgCompatibility \<ge> 75 then tips0 @ [tip_strong]
             else if avgCompatibility \<ge> 60 then tips0 @ [tip_potential]
             else tips0 @ [tip_refine]);
          tips2 =
            (if positivity (textingTone profile') < 50 then tips1 @ [tip_positive] else tips1);
          tips3 =
            (if playfulness (textingTone profile') < 40 then tips2 @ [tip_playful]
             else if playfulness (textingTone profile') > 80 then tips2 @ [tip_depth]
             else tips2);
          tips4 =
            (if responseLength (textingTone profile') < 30 then tips3 @ [tip_brief]
             else if responseLength (textingTone profile') > 80 then tips3 @ [tip_concise]
             else tips3);
          tips5 =
            (if list_ex (\<lambda>issue. str_includes issue ''question'') commonIssues'
             then tips4 @ [tip_questions] else tips4);
          tips6 =
            (if list_ex (\<lambda>issue. str_includes issue ''eager'' \<or> str_includes issue ''enthusias'')
                  commonIssues'
             then tips5 @ [tip_breathe] else tips5)
      in take 5 tips6)"

subsection \<open>Openers, impression, strengths, improvements\<close>

definition generateOpeners :: "UserProfile \<Rightarrow> VibeAnalysis \<Rightarrow> string list" where
  "generateOpeners profile' vibeAnalysis =
     [''Hey! I noticed [specific detail from their profile] - that's really cool. What got you into that?'',
      ''Hi there! Your profile caught my eye. Quick question: '' @
        (if str_includes (relationshipGoals profile') ''casual''
         then ''what's your favorite spontaneous activity?''
         else ''what's something you're passionate about?''),
      ''Hey! I had to reach out - '' @
        (if playfulness (textingTone profile') > 60
         then ''you seem like you'd be fun to grab coffee with''
         else ''we seem to have similar interests'') @
        ''. How's your [day/week] going?'',
      ''Hi! I'm curious - [question based on their interests]. Also, '' @
        (if playfulness (textingTone profile') > 60
         then ''coffee or tea? (This is important)''
         else ''what brings you to [dating app]?''),
      ''Hey there! I saw you mentioned [interest] in your profile. I'm actually into that too! What's been your recent favorite?'']"

definition buildOverallImpression :: "VibeAnalysis \<Rightarrow> int \<Rightarrow> string" where
  "buildOverallImpression vibeAnalysis avgCompatibility =
     (let tone = str_or (overall_tone vibeAnalysis) ''positive'';
          energy = str_or (energy_level vibeAnalysis) ''medium'';
          style = str_or (communication_style vibeAnalysis) ''friendly''
      in if avgCompatibility \<ge> 75 then
           ''You come across as '' @ style @ '' with a '' @ tone @ '' energy. Your '' @ energy @
           '' enthusiasm is appealing and you seem genuinely interested in making connections. People likely find you approachable and authentic.''
         else if avgCompatibility \<ge> 60 then
           ''You have a '' @ style @ '' vibe with '' @ tone @
           '' energy. While you're making good connections, there's room to let more of your personality shine through in conversations.''
         else
           ''Your communication style is '' @ style @ '' but could benefit from more '' @
           (if tone = ''positive'' then ''consistency'' else ''positivity'') @
           ''. Focus on being more open and engaging in your approach.'')"

text \<open>\<^verbatim>\<open>bio.length\<close> counts UTF-16 code units; on an ASCII bio that is the byte count.\<close>

definition identifyStrengths :: "UserProfile \<Rightarrow> VibeAnalysis \<Rightarrow> int \<Rightarrow> string list" where
  "identifyStrengths profile' vibeAnalysis avgCompatibility =
     (let s0 = [];
          s1 = (if positivity (textingTone profile') \<ge> 70
                then s0 @ [''Positive and upbeat communication style''] else s0);
          s2 = (if playfulness (textingTone profile') \<ge> 60
                then s1 @ [''Good sense of humor and playfulness''] else s1);
          s3 = (if length (bio profile') > 50
                then s2 @ [''Clear about who you are and what you want''] else s2);
          s4 = (if avgCompatibility \<ge> 70
                then s3 @ [''Strong overall compatibility with diverse personality types''] else s3);
          s5 = (if (case key_traits vibeAnalysis of None \<Rightarrow> False
                    | Some traits \<Rightarrow> ''authentic'' \<in> set traits)
                then s4 @ [''Authentic and genuine in your interactions''] else s4);
          s6 = (if responseLength (textingTone profile') \<ge> 40 \<and>
                   responseLength (textingTone profile') \<le> 70
                then s5 @ [''Well-balanced message length - not too brief, not too long''] else s5)
      in if length s6 > 0 then s6
         else [''Open to new connections'', ''Willing to put yourself out there''])"

definition improvement_step :: "string \<Rightarrow> string list \<Rightarrow> string list" where
  "improvement_step issue improvements =
     (if str_includes issue ''question'' then
        improvements @ [''Ask more engaging questions to show genuine curiosity'']
      else if str_includes issue ''eager'' then
        improvements @ [''Let conversations develop naturally without rushing'']
      else if str_includes issue ''brief'' then
        improvements @ [''Share more details to give matches something to respond to'']
      else if str_includes issue ''sharing'' then
        improvements @ [''Build rapport gradually rather than over-sharing early'']
      else improvements)"

definition identifyImprovements :: "string list \<Rightarrow> VibeAnalysis \<Rightarrow> string list" where
  "identifyImprovements commonIssues' vibeAnalysis =
     take 4 (Set_from (fold improvement_step commonIssues' []))"

subsection \<open>The summary\<close>

text \<open>
  \<^verbatim>\<open>analyzeSimulations\<close> is called with the 50 records of a run. On an empty array the
  source's average is \<^verbatim>\<open>NaN\<close>, which the model has no value for: the statements about
  the average are about non-empty arrays.
\<close>

definition analyzeSimulations ::
  "SimulationResult list \<Rightarrow> VibeAnalysis \<Rightarrow> UserProfile \<Rightarrow> SimulationSummary" where
  "analyzeSimulations simulations vibeAnalysis profile' =
     (let totalCompatibility = fold (\<lambda>sim sum. sum + compatibility_score sim) simulations 0;
          averageCompatibility =
            Math_round (of_int totalCompatibility / of_nat (length simulations));
          commonIssues' = commonIssues simulations
      in \<lparr>total_simulations = 50,
          average_compatibility = averageCompatibility,
          top_archetypes = topArchetypes simulations,
          common_issues = commonIssues',
          coaching_tips =
            generateCoachingTips profile' vibeAnalysis commonIssues' averageCompatibility,
          suggested_openers = generateOpeners profile' vibeAnalysis,
          vibe_analysis =
            \<lparr>overall_impression = buildOverallImpression vibeAnalysis averageCompatibility,
             strengths = identifyStrengths profile' vibeAnalysis averageCompatibility,
             areas_to_improve = identifyImprovements commonIssues' vibeAnalysis\<rparr>\<rparr>)"

text \<open>
  \<^verbatim>\<open>runSimulations(profile, chatHistory)\<close>; \<open>rnds i\<close> is the random draw of scenario \<open>i\<close>
  and \<open>api\<close> the outcome of the completion request that \<^verbatim>\<open>analyzeVibe\<close> makes.
\<close>

definition runSimulations ::
  "api_outcome \<Rightarrow> (nat \<Rightarrow> rat) \<Rightarrow> UserProfile \<Rightarrow> ChatMessage list \<Rightarrow> SimulationSummary option" where
  "runSimulations api rnds profile' chatHistory' =
     (let userMessages = map content (filter (\<lambda>msg. sender msg = user) chatHistory')
      in case analyzeVibe api (bio profile') userMessages of
           None \<Rightarrow> None
         | Some vibeAnalysis \<Rightarrow>
             (let simulations = map (\<lambda>i. generateSimulation (rnds i) i) [0..<50]
              in Some (analyzeSimulations simulations vibeAnalysis profile')))"


section \<open>server.ts\<close>

text \<open>
  The body of \<^verbatim>\<open>POST /api/profile\<close>. The handler reads \<^verbatim>\<open>textingTone\<close> as an object
  with three fields, so the object may be absent and so may each field; the other
  fields are copied as they are.
\<close>

record ToneData =
  d_positivity :: "int option"
  d_playfulness :: "int option"
  d_responseLength :: "int option"

record ProfileData =
  d_name :: string
  d_ageRange :: string
  d_gender :: string
  d_interestedIn :: string
  d_bio :: string
  d_relationshipGoals :: string
  d_textingTone :: "ToneData option"
  d_selfRatedAttractiveness :: "int option"

text \<open>
  A response is its JSON payload; \<open>Failure\<close> carries the HTTP status and the error text.
\<close>

datatype response =
    Health nat
  | ProfileCreated UserProfile ChatMessage
  | ProfileFound UserProfile
  | PhotosUploaded "string list" PhotoVerification
  | PhotosVerified PhotoVerification
  | ChatHistory "ChatMessage list"
  | ChatReply ChatMessage
  | SimulationsDone SimulationSummary ChatMessage
  | SimulationsFound SimulationSummary
  | Failure nat string

text \<open>
  Every handler takes what the environment supplies (the identifiers that \<^verbatim>\<open>uuidv4()\<close>
  returns, the times that \<^verbatim>\<open>new Date()\<close> reads, the random draws, the outcome of the
  completion request) and the store, and returns the response and the store after it.
  Requests are handled one after the other.
\<close>

definition wave :: string where
  "wave = [CHR 0xF0, CHR 0x9F, CHR 0x91, CHR 0x8B]"

text \<open>
  \<^verbatim>\<open>POST /api/profile\<close>. Reading a field of the absent \<^verbatim>\<open>textingTone\<close> throws while the
  profile object is being built, before anything is stored; the \<^verbatim>\<open>catch\<close> answers 500
  with the engine's message.
\<close>

definition postProfile ::
  "ProfileData \<Rightarrow> string \<Rightarrow> nat \<Rightarrow> string \<Rightarrow> nat \<Rightarrow> Storage \<Rightarrow> response \<times> Storage" where
  "postProfile profileData id1 now1 id2 now2 st =
     (case d_textingTone profileData of
        None \<Rightarrow> (Failure 500 ''Cannot read properties of undefined (reading 'positivity')'', st)
      | Some tone \<Rightarrow>
          (let profile' =
                 \<lparr>profile_id = id1,
                  name = d_name profileData,
                  ageRange = d_ageRange profileData,
                  gender = d_gender profileData,
                  interestedIn = d_interestedIn profileData,
                  bio = d_bio profileData,
                  relationshipGoals = d_relationshipGoals profileData,
                  textingTone =
                    \<lparr>positivity = num_or (d_positivity tone) 50,
                     playfulness = num_or (d_playfulness tone) 50,
                     responseLength = num_or (d_responseLength tone) 50\<rparr>,
                  selfRatedAttractiveness = d_selfRatedAttractiveness profileData,
                  photos = [],
                  createdAt = now1\<rparr>;
               st1 = saveProfile profile' st;
               welcomeMessage =
                 \<lparr>message_id = id2,
                  sender = agent,
                  content =
                    ''Hey '' @ name profile' @ ''! '' @ wave @
                    '' I'm your AI dating coach. I'm here to help you understand your dating vibe and give you personalized advice. Let's chat a bit so I can get to know you better! What brings you here today?'',
                  timestamp = now2\<rparr>;
               st2 = addMessage welcomeMessage st1
           in (ProfileCreated profile' welcomeMessage, st2)))"

definition getProfileHandler :: "Storage \<Rightarrow> response \<times> Storage" where
  "getProfileHandler st =
     (case getProfile st of
        None \<Rightarrow> (Failure 404 ''Profile not found'', st)
      | Some profile' \<Rightarrow> (ProfileFound profile', st))"

text \<open>
  \<^verbatim>\<open>POST /api/photos\<close>; \<open>files\<close> are the names under which the upload middleware has
  stored the accepted files, \<open>None\<close> when the request carried none.
\<close>

definition postPhotos :: "string list option \<Rightarrow> rat \<Rightarrow> Storage \<Rightarrow> response \<times> Storage" where
  "postPhotos files rnd st =
     (case getProfile st of
        None \<Rightarrow> (Failure 404 ''Profile not found. Please complete onboarding first.'', st)
      | Some profile' \<Rightarrow>
          (case files of
             None \<Rightarrow> (Failure 400 ''No files uploaded'', st)
           | Some fs \<Rightarrow>
               if length fs = 0 then (Failure 400 ''No files uploaded'', st)
               else
                 (let photoPaths = fs;
                      st1 = snd (updateProfile (no_updates\<lparr>u_photos := Some photoPaths\<rparr>) st);
                      verification = analyzePhotos rnd photoPaths
                  in (PhotosUploaded photoPaths verification, st1))))"

definition getPhotosVerification :: "rat \<Rightarrow> Storage \<Rightarrow> response \<times> Storage" where
  "getPhotosVerification rnd st =
     (case getProfile st of
        None \<Rightarrow> (Failure 404 ''No photos found'', st)
      | Some profile' \<Rightarrow>
          if length (photos profile') = 0 then (Failure 404 ''No photos found'', st)
          else (PhotosVerified (analyzePhotos rnd (photos profile')), st))"

definition getChatHistoryHandler :: "Storage \<Rightarrow> response \<times> Storage" where
  "getChatHistoryHandler st = (ChatHistory (getChatHistory st), st)"

definition systemPrompt :: "UserProfile \<Rightarrow> string" where
  "systemPrompt profile' =
     ''You are an AI dating coach helping '' @ name profile' @ ''. Your role is to:'' @ nl @
     ''- Analyze their texting style and personality'' @ nl @
     ''- Provide constructive, supportive feedback'' @ nl @
     ''- Ask thoughtful questions to understand them better'' @ nl @
     ''- Check in on their dating experiences'' @ nl @
     ''- Offer personalized coaching tips'' @ nl @
     nl @
     ''User profile:'' @ nl @
     ''- Age: '' @ ageRange profile' @ nl @
     ''- Bio: '' @ bio profile' @ nl @
     ''- Relationship goals: '' @ relationshipGoals profile' @ nl @
     ''- Texting style: '' @ show_int (positivity (textingTone profile')) @ ''% positive, '' @
       show_int (playfulness (textingTone profile')) @ ''% playful'' @ nl @
     nl @
     ''Be friendly, supportive, and conversational. Don't be overly formal.''"

text \<open>
  \<^verbatim>\<open>POST /api/chat/message\<close>; \<open>body_content\<close> is the \<^verbatim>\<open>content\<close> of the body when it is
  a string and \<open>None\<close> when it is missing or of another type. The user message is stored
  before the completion request is made.
\<close>

definition postChatMessage ::
  "string option \<Rightarrow> string \<Rightarrow> nat \<Rightarrow> api_outcome \<Rightarrow> string \<Rightarrow> nat \<Rightarrow> Storage
     \<Rightarrow> response \<times> Storage" where
  "postChatMessage body_content id1 now1 api id2 now2 st =
     (case body_content of
        None \<Rightarrow> (Failure 400 ''Message content is required'', st)
      | Some content' \<Rightarrow>
          if content' = [] then (Failure 400 ''Message content is required'', st)
          else
            (case getProfile st of
               None \<Rightarrow> (Failure 404 ''Profile not found'', st)
             | Some profile' \<Rightarrow>
                 (let userMessage =
                        \<lparr>message_id = id1, sender = user, content = content', timestamp = now1\<rparr>;
                      st1 = addMessage userMessage st;
                      chatHistory' = getChatHistory st1;
                      recentMessages = slice_last 10 chatHistory';
                      messages =
                        \<lparr>role = role_system, llm_content = systemPrompt profile'\<rparr> #
                        map (\<lambda>msg. \<lparr>role = (if sender msg = user then role_user else role_assistant),
                                     llm_content = content msg\<rparr>)
                          recentMessages
                  in case callLLM api messages of
                       None \<Rightarrow>
                         (Failure 500 ''Cannot read properties of undefined (reading 'content')'', st1)
                     | Some aiResponse \<Rightarrow>
                         (let aiMessage =
                                \<lparr>message_id = id2, sender = agent, content = aiResponse,
                                 timestamp = now2\<rparr>;
                              st2 = addMessage aiMessage st1
                          in (ChatReply aiMessage, st2)))))"

definition party :: string where
  "party = [CHR 0xF0, CHR 0x9F, CHR 0x8E, CHR 0x89]"

definition check_mark :: string where
  "check_mark = [CHR 0xE2, CHR 0x9C, CHR 0x93]"

definition bullet :: string where
  "bullet = [CHR 0xE2, CHR 0x80, CHR 0xA2]"

definition arrow :: string where
  "arrow = [CHR 0xE2, CHR 0x86, CHR 0x92]"

definition numbered :: "string list \<Rightarrow> string list" where
  "numbered xs = map (\<lambda>(i, x). show_int (int i + 1) @ ''. '' @ x) (enumerate 0 xs)"

definition buildSimulationSummaryMessage :: "SimulationSummary \<Rightarrow> string" where
  "buildSimulationSummaryMessage results =
     party @ '' Simulations complete! Here's what I learned:'' @ nl @
     nl @
     ''**Your Overall Vibe:**'' @ nl @
     overall_impression (vibe_analysis results) @ nl @
     nl @
     ''**Your Strengths:**'' @ nl @
     join nl (map (\<lambda>s. check_mark @ '' '' @ s) (strengths (vibe_analysis results))) @ nl @
     nl @
     ''**Top Compatible Archetypes:**'' @ nl @
     join nl (numbered (take 3 (top_archetypes results))) @ nl @
     nl @
     ''**Coaching Tips:**'' @ nl @
     join nl (numbered (take 3 (coaching_tips results))) @ nl @
     nl @
     ''**Suggested Openers:**'' @ nl @
     join nl (map (\<lambda>opener. bullet @ '' '' @ dq @ opener @ dq) (take 2 (suggested_openers results))) @ nl @
     nl @
     (if length (areas_to_improve (vibe_analysis results)) > 0
      then nl @ ''**Areas to Work On:**'' @ nl @
           join nl (map (\<lambda>a. arrow @ '' '' @ a) (areas_to_improve (vibe_analysis results)))
      else []) @ nl @
     nl @
     ''Your average compatibility score was '' @ show_int (average_compatibility results) @
     ''/100! Want to dive deeper into any of these insights?''"

text \<open>
  \<^verbatim>\<open>POST /api/simulations/run\<close>. The handler reads the transcript before it stores the
  start message, but what it holds is the store's own array, so \<^verbatim>\<open>runSimulations\<close> sees
  the start message too.
\<close>

definition postSimulationsRun ::
  "string \<Rightarrow> nat \<Rightarrow> api_outcome \<Rightarrow> (nat \<Rightarrow> rat) \<Rightarrow> string \<Rightarrow> nat \<Rightarrow> Storage
     \<Rightarrow> response \<times> Storage" where
  "postSimulationsRun id1 now1 api rnds id2 now2 st =
     (case getProfile st of
        None \<Rightarrow> (Failure 404 ''Profile not found'', st)
      | Some profile' \<Rightarrow>
          (let startMessage =
                 \<lparr>message_id = id1, sender = agent,
                  content = ''Great! I'm going to run 50 simulated dating scenarios based on your profile and our conversations. This will take about 30 seconds. I'll analyze how you might interact with different personality types and give you personalized insights!'',
                  timestamp = now1\<rparr>;
               st1 = addMessage startMessage st;
               chatHistory' = getChatHistory st1
           in case runSimulations api rnds profile' chatHistory' of
                None \<Rightarrow>
                  (Failure 500 ''Cannot read properties of undefined (reading 'content')'', st1)
              | Some results \<Rightarrow>
                  (let st2 = saveSimulationResults results st1;
                       completionMessage =
                         \<lparr>message_id = id2, sender = agent,
                          content = buildSimulationSummaryMessage results,
                          timestamp = now2\<rparr>;
                       st3 = addMessage completionMessage st2
                   in (SimulationsDone results completionMessage, st3))))"

definition getSimulationsResults :: "Storage \<Rightarrow> response \<times> Storage" where
  "getSimulationsResults st =
     (case getSimulationResults st of
        None \<Rightarrow> (Failure 404 ''No simulation results found'', st)
      | Some results \<Rightarrow> (SimulationsFound results, st))"

text \<open>The routes of the server, and a sequence of requests handled in order.\<close>

datatype request =
    GetHealth nat
  | PostProfile ProfileData string nat string nat
  | GetProfile
  | PostPhotos "string list option" rat
  | GetPhotosVerification rat
  | GetChatHistory
  | PostChatMessage "string option" string nat api_outcome string nat
  | PostSimulationsRun string nat api_outcome "nat \<Rightarrow> rat" string nat
  | GetSimulationsResults

fun handle :: "request \<Rightarrow> Storage \<Rightarrow> response \<times> Storage" where
  "handle (GetHealth now) st = (Health now, st)"
| "handle (PostProfile profileData id1 now1 id2 now2) st = postProfile profileData id1 now1 id2 now2 st"
| "handle GetProfile st = getProfileHandler st"
| "handle (PostPhotos files rnd) st = postPhotos files rnd st"
| "handle (GetPhotosVerification rnd) st = getPhotosVerification rnd st"
| "handle GetChatHistory st = getChatHistoryHandler st"
| "handle (PostChatMessage body_content id1 now1 api id2 now2) st =
     postChatMessage body_content id1 now1 api id2 now2 st"
| "handle (PostSimulationsRun id1 now1 api rnds id2 now2) st =
     postSimulationsRun id1 now1 api rnds id2 now2 st"
| "handle GetSimulationsResults st = getSimulationsResults st"

fun serve :: "request list \<Rightarrow> Storage \<Rightarrow> Storage" where
  "serve [] st = st"
| "serve (r # rs) st = serve rs (snd (handle r st))"


section \<open>Notions of the specification\<close>

text \<open>
  The distinct elements of a list in the order in which each is first seen.
\<close>

definition first_seen :: "'a list \<Rightarrow> 'a list" where
  "first_seen xs = rev (remdups (rev xs))"

text \<open>The scores of the records of one archetype, and the arithmetic mean of a group.\<close>

definition scores_of :: "SimulationResult list \<Rightarrow> string \<Rightarrow> int list" where
  "scores_of sims a = map compatibility_score (filter (\<lambda>s. match_archetype s = a) sims)"

definition mean :: "int list \<Rightarrow> rat" where
  "mean xs = of_int (sum_list xs) / of_nat (length xs)"

text \<open>
  The archetypes of a batch, ranked: in descending order of the mean score of their
  group, archetypes of equal mean in first-seen order.
\<close>

definition ranked_archetypes :: "SimulationResult list \<Rightarrow> string list" where
  "ranked_archetypes sims =
     sort_desc (\<lambda>a. mean (scores_of sims a)) (first_seen (map match_archetype sims))"

text \<open>
  The issue strings that the records report (a record without an issue reports none),
  and the distinct ones ranked by the number of records that report them.
\<close>

definition reported :: "string option list \<Rightarrow> string list" where
  "reported os = concat (map (\<lambda>i. case i of None \<Rightarrow> [] | Some x \<Rightarrow> [x]) os)"

definition ranked_labels :: "string list \<Rightarrow> string list" where
  "ranked_labels is = sort_desc (\<lambda>i. int (count_list is i)) (first_seen is)"

definition ranked_issues :: "SimulationResult list \<Rightarrow> string list" where
  "ranked_issues sims = ranked_labels (reported (map potential_issue sims))"






text \<open>No texting-tone value of the stored profile is 0.\<close>

definition tone_ok :: "Storage \<Rightarrow> bool" where
  "tone_ok st =
     (case profile st of
        None \<Rightarrow> True
      | Some p \<Rightarrow>
          positivity (textingTone p) \<noteq> 0 \<and> playfulness (textingTone p) \<noteq> 0 \<and>
          responseLength (textingTone p) \<noteq> 0)"

section \<open>Example inputs\<close>

definition example_profile :: UserProfile where
  "example_profile =
     \<lparr>profile_id = ''u1'', name = ''Ann'', ageRange = ''25-34'', gender = ''woman'',
      interestedIn = ''men'', bio = ''I like hiking and long dinners.'',
      relationshipGoals = ''unsure'',
      textingTone = \<lparr>positivity = 40, playfulness = 30, responseLength = 20\<rparr>,
      selfRatedAttractiveness = Some 3, photos = [''a.jpg''], createdAt = 7\<rparr>"

definition example_vibe :: VibeAnalysis where
  "example_vibe =
     \<lparr>overall_tone = Some ''positive'', energy_level = Some ''medium-high'',
      communication_style = Some ''friendly and direct'',
      key_traits = Some [''enthusiastic'', ''curious'', ''thoughtful'', ''authentic'']\<rparr>"

definition example_storage :: Storage where
  "example_storage = \<lparr>profile = Some example_profile, chatHistory = [], simulationResults = None\<rparr>"

definition example_tone :: ToneData where
  "example_tone = \<lparr>d_positivity = None, d_playfulness = Some 0, d_responseLength = Some 65\<rparr>"

definition example_data :: ProfileData where
  "example_data =
     \<lparr>d_name = ''Ann'', d_ageRange = ''25-34'', d_gender = ''woman'', d_interestedIn = ''men'',
      d_bio = ''I like hiking and long dinners.'', d_relationshipGoals = ''unsure'',
      d_textingTone = Some example_tone, d_selfRatedAttractiveness = Some 3\<rparr>"

definition example_data_no_tone :: ProfileData where
  "example_data_no_tone = example_data\<lparr>d_textingTone := None\<rparr>"




definition example_sim :: "string \<Rightarrow> int \<Rightarrow> string option \<Rightarrow> SimulationResult" where
  "example_sim a s i =
     \<lparr>match_archetype = a, match_initial_message = ''Hi!'', user_expected_reply = ''Hello'',
      compatibility_score = s, potential_issue = i\<rparr>"

definition example_batch :: "SimulationResult list" where
  "example_batch =
     [example_sim ''A'' 70 (Some ''too eager''),
      example_sim ''B'' 90 None,
      example_sim ''A'' 80 (Some ''ask a question''),
      example_sim ''C'' 75 (Some ''ask a question'')]"


section \<open>Random draws and rounding\<close>

lemma floor_draw_bounds:
  fixes rnd :: rat
  assumes "0 \<le> rnd" "rnd < 1" "0 < n"
  shows "0 \<le> Math_floor (rnd * of_int n) \<and> Math_floor (rnd * of_int n) < n"
proof -
  have "0 \<le> rnd * of_int n" using assms by simp
  moreover have "rnd * of_int n < of_int n" using assms by simp
  ultimately show ?thesis
    unfolding Math_floor_def by (simp add: floor_less_iff)
qed

lemma Math_round_near: "\<bar>of_int (Math_round x) - x\<bar> \<le> 1 / 2"
  unfolding Math_round_def by linarith

lemma Math_round_between:
  assumes "of_int a \<le> x" and "x \<le> of_int b"
  shows "a \<le> Math_round x \<and> Math_round x \<le> b"
proof -
  have "of_int a \<le> x + 1 / 2" using assms(1) by simp
  then have 1: "a \<le> \<lfloor>x + 1 / 2\<rfloor>" by (simp add: le_floor_iff)
  have "x + 1 / 2 < of_int (b + 1)" using assms(2) by simp
  then have "\<lfloor>x + 1 / 2\<rfloor> < b + 1" by (simp only: floor_less_iff)
  with 1 show ?thesis unfolding Math_round_def by simp
qed

section \<open>Photo verification\<close>

text \<open>
  C5. Photo verification: no photo gives \<open>failed\<close> with confidence 0; exactly one photo
  gives \<open>success\<close> with confidence exactly 75; two or more photos give the confidence
  \<open>80 + \<lfloor>15 r\<rfloor>\<close> of one random draw \<open>r\<close>, which lies in \<open>[80, 95)\<close>, and the status is
  \<open>success\<close> from 85 on, \<open>inconclusive\<close> from 70 on and \<open>failed\<close> below.
\<close>

theorem analyzePhotos_cases:
  "(length photoPaths = 0 \<longrightarrow>
      status (analyzePhotos rnd photoPaths) = failed \<and>
      confidence (analyzePhotos rnd photoPaths) = 0) \<and>
   (length photoPaths = 1 \<longrightarrow>
      status (analyzePhotos rnd photoPaths) = success \<and>
      confidence (analyzePhotos rnd photoPaths) = 75) \<and>
   (2 \<le> length photoPaths \<longrightarrow> 0 \<le> rnd \<longrightarrow> rnd < 1 \<longrightarrow>
      confidence (analyzePhotos rnd photoPaths) = 80 + Math_floor (rnd * 15) \<and>
      80 \<le> confidence (analyzePhotos rnd photoPaths) \<and>
      confidence (analyzePhotos rnd photoPaths) < 95 \<and>
      status (analyzePhotos rnd photoPaths) =
        (if confidence (analyzePhotos rnd photoPaths) \<ge> 85 then success
         else if confidence (analyzePhotos rnd photoPaths) \<ge> 70 then inconclusive
         else failed))"
proof -
  have draw: "0 \<le> rnd \<Longrightarrow> rnd < 1 \<Longrightarrow>
      0 \<le> Math_floor (rnd * 15) \<and> Math_floor (rnd * 15) < 15"
    using floor_draw_bounds [of rnd 15] by simp
  show ?thesis
    using draw by (auto simp: analyzePhotos_def Let_def)
qed

theorem analyzePhotos_cases_witness:
  "status (analyzePhotos (1 / 2) []) = failed \<and>
   confidence (analyzePhotos (1 / 2) []) = 0 \<and>
   status (analyzePhotos (1 / 2) [''a.jpg'']) = success \<and>
   confidence (analyzePhotos (1 / 2) [''a.jpg'']) = 75 \<and>
   confidence (analyzePhotos (1 / 2) [''a.jpg'', ''b.jpg'']) = 87 \<and>
   status (analyzePhotos (1 / 2) [''a.jpg'', ''b.jpg'']) = success \<and>
   confidence (analyzePhotos (1 / 5) [''a.jpg'', ''b.jpg'']) = 83 \<and>
   status (analyzePhotos (1 / 5) [''a.jpg'', ''b.jpg'']) = inconclusive"
  using analyzePhotos_cases [of "[]" "1 / 2"]
    analyzePhotos_cases [of "[''a.jpg'']" "1 / 2"]
    analyzePhotos_cases [of "[''a.jpg'', ''b.jpg'']" "1 / 2"]
    analyzePhotos_cases [of "[''a.jpg'', ''b.jpg'']" "1 / 5"]
  by (simp add: Math_floor_def floor_eq_iff)

text \<open>
  C9. With two or more photos the status is never \<open>failed\<close>: the drawn confidence is at
  least 80, so the result is \<open>success\<close> or \<open>inconclusive\<close>.
\<close>

theorem analyzePhotos_multi_never_failed:
  assumes "2 \<le> length photoPaths" and "0 \<le> rnd" and "rnd < 1"
  shows "status (analyzePhotos rnd photoPaths) \<noteq> failed \<and>
         80 \<le> confidence (analyzePhotos rnd photoPaths) \<and>
         (status (analyzePhotos rnd photoPaths) = success \<or>
          status (analyzePhotos rnd photoPaths) = inconclusive)"
proof -
  have "0 \<le> Math_floor (rnd * 15)"
    using floor_draw_bounds [of rnd 15] assms by simp
  then show ?thesis
    using assms by (auto simp: analyzePhotos_def Let_def)
qed

theorem analyzePhotos_multi_never_failed_witness:
  "status (analyzePhotos (1 / 5) [''a.jpg'', ''b.jpg'']) \<noteq> failed \<and>
   80 \<le> confidence (analyzePhotos (1 / 5) [''a.jpg'', ''b.jpg''])"
  using analyzePhotos_multi_never_failed [of "[''a.jpg'', ''b.jpg'']" "1 / 5"]
  by simp

section \<open>Average compatibility\<close>

lemma fold_score_sum:
  "fold (\<lambda>sim sum. sum + compatibility_score sim) sims a =
     a + sum_list (map compatibility_score sims)"
  by (induction sims arbitrary: a) auto

lemma sum_list_between:
  fixes xs :: "int list"
  assumes "\<forall>x \<in> set xs. a \<le> x \<and> x \<le> b"
  shows "a * int (length xs) \<le> sum_list xs \<and> sum_list xs \<le> b * int (length xs)"
  using assms by (induction xs) (auto simp: algebra_simps)

lemma mean_between:
  fixes xs :: "int list"
  assumes "xs \<noteq> []" and "\<forall>x \<in> set xs. a \<le> x \<and> x \<le> b"
  shows "(of_int a :: rat) \<le> of_int (sum_list xs) / of_nat (length xs) \<and>
         of_int (sum_list xs) / of_nat (length xs) \<le> (of_int b :: rat)"
proof -
  have pos: "(0::rat) < of_nat (length xs)" using assms(1) by simp
  have "a * int (length xs) \<le> sum_list xs" "sum_list xs \<le> b * int (length xs)"
    using sum_list_between [OF assms(2)] by auto
  then have "(of_int (a * int (length xs)) :: rat) \<le> of_int (sum_list xs)"
     "(of_int (sum_list xs) :: rat) \<le> of_int (b * int (length xs))"
    by (simp_all only: of_int_le_iff)
  then have "(of_int a :: rat) * of_nat (length xs) \<le> of_int (sum_list xs)"
     "(of_int (sum_list xs) :: rat) \<le> of_int b * of_nat (length xs)"
    by simp_all
  then show ?thesis using pos by (simp add: pos_le_divide_eq pos_divide_le_eq)
qed

lemma generateSimulation_score:
  assumes "0 \<le> rnd" and "rnd < 1"
  shows "60 \<le> compatibility_score (generateSimulation rnd i) \<and>
         compatibility_score (generateSimulation rnd i) \<le> 94"
  using floor_draw_bounds [OF assms, of 35]
  by (simp add: generateSimulation_def Let_def)

lemma analyzeVibe_total: "\<exists>v. analyzeVibe api b hist = Some v"
  by (cases api) (simp_all add: analyzeVibe_def callLLM_def Let_def)

lemma runSimulations_total:
  "\<exists>v. runSimulations api rnds p h =
       Some (analyzeSimulations (map (\<lambda>i. generateSimulation (rnds i) i) [0..<50]) v p)"
proof -
  obtain v where
    "analyzeVibe api (bio p) (map content (filter (\<lambda>msg. sender msg = user) h)) = Some v"
    using analyzeVibe_total by blast
  then have "runSimulations api rnds p h =
       Some (analyzeSimulations (map (\<lambda>i. generateSimulation (rnds i) i) [0..<50]) v p)"
    by (simp add: runSimulations_def Let_def)
  then show ?thesis by blast
qed

lemma average_analyze:
  "average_compatibility (analyzeSimulations sims v p) =
     Math_round (of_int (sum_list (map compatibility_score sims)) / of_nat (length sims))"
  by (simp add: analyzeSimulations_def Let_def fold_score_sum)

text \<open>
  C1. A simulation run always produces a summary. Its \<open>average_compatibility\<close> is the
  arithmetic mean of the 50 generated scores rounded to the nearest integer (it differs
  from the mean by at most one half); every generated score is an integer in
  \<open>[60, 95)\<close>, and so is the average.
\<close>

theorem average_compatibility_of_run:
  assumes "\<forall>i<50. 0 \<le> rnds i \<and> rnds i < 1"
  shows "\<exists>summary.
     runSimulations api rnds p h = Some summary \<and>
     average_compatibility summary =
       Math_round (of_int (sum_list
         (map (\<lambda>i. compatibility_score (generateSimulation (rnds i) i)) [0..<50])) / 50) \<and>
     \<bar>of_int (average_compatibility summary) -
        of_int (sum_list
          (map (\<lambda>i. compatibility_score (generateSimulation (rnds i) i)) [0..<50])) / 50\<bar>
       \<le> (1 / 2 :: rat) \<and>
     (\<forall>i<50. 60 \<le> compatibility_score (generateSimulation (rnds i) i) \<and>
              compatibility_score (generateSimulation (rnds i) i) < 95) \<and>
     60 \<le> average_compatibility summary \<and> average_compatibility summary < 95"
proof -
  let ?sims = "map (\<lambda>i. generateSimulation (rnds i) i) [0..<50]"
  let ?scores = "map compatibility_score ?sims"
  obtain v where run: "runSimulations api rnds p h = Some (analyzeSimulations ?sims v p)"
    using runSimulations_total by blast
  have scores: "?scores = map (\<lambda>i. compatibility_score (generateSimulation (rnds i) i)) [0..<50]"
    by (simp add: comp_def)
  have avg: "average_compatibility (analyzeSimulations ?sims v p) =
      Math_round (of_int (sum_list ?scores) / 50)"
    by (simp only: average_analyze) simp
  have each: "\<forall>i<50. 60 \<le> compatibility_score (generateSimulation (rnds i) i) \<and>
              compatibility_score (generateSimulation (rnds i) i) \<le> 94"
    using assms generateSimulation_score by blast
  then have "\<forall>x \<in> set ?scores. 60 \<le> x \<and> x \<le> 94" by auto
  moreover have "?scores \<noteq> []" by simp
  ultimately have "(of_int 60 :: rat) \<le> of_int (sum_list ?scores) / of_nat (length ?scores) \<and>
      of_int (sum_list ?scores) / of_nat (length ?scores) \<le> (of_int 94 :: rat)"
    by (rule mean_between [rotated])
  then have mean: "(of_int 60 :: rat) \<le> of_int (sum_list ?scores) / 50"
      "of_int (sum_list ?scores) / 50 \<le> (of_int 94 :: rat)"
    by simp_all
  have bounds: "60 \<le> Math_round (of_int (sum_list ?scores) / 50) \<and>
      Math_round (of_int (sum_list ?scores) / 50) \<le> 94"
    using Math_round_between [OF mean] .
  have near: "\<bar>of_int (Math_round (of_int (sum_list ?scores) / 50)) -
      of_int (sum_list ?scores) / 50\<bar> \<le> (1 / 2 :: rat)"
    by (rule Math_round_near)
  show ?thesis
    using run avg bounds near each unfolding scores by auto
qed

theorem average_compatibility_of_run_witness:
  "\<exists>summary.
     runSimulations ApiNoText (\<lambda>i. 1 / 2) example_profile [] = Some summary \<and>
     average_compatibility summary = 77"
proof -
  have f: "Math_floor (35 / 2) = 17" by (simp add: Math_floor_def floor_eq_iff)
  have r: "Math_round 77 = 77" by (simp add: Math_round_def floor_eq_iff)
  show ?thesis
    using average_compatibility_of_run [of "\<lambda>i. 1 / 2" ApiNoText example_profile "[]"]
    by (auto simp add: generateSimulation_def Let_def f r sum_list_triv simp del: upt_Suc)
qed


section \<open>Grouping and ranking\<close>

lemma first_seen_Nil [simp]: "first_seen [] = []"
  by (simp add: first_seen_def)

lemma first_seen_snoc:
  "first_seen (xs @ [x]) = (if x \<in> set xs then first_seen xs else first_seen xs @ [x])"
  by (simp add: first_seen_def)

lemma set_first_seen [simp]: "set (first_seen xs) = set xs"
  by (simp add: first_seen_def)

lemma distinct_first_seen [simp]: "distinct (first_seen xs)"
  by (simp add: first_seen_def)

lemma Map_has_keys: "Map_has (map (\<lambda>a. (a, f a)) ks) k = (k \<in> set ks)"
  by (simp add: Map_has_def comp_def)

lemma Map_get_keys: "Map_get (map (\<lambda>a. (a, f a)) ks) k = (if k \<in> set ks then Some (f k) else None)"
  by (induction ks) (auto simp: Map_get_def)

lemma Map_set_new:
  "k \<notin> set ks \<Longrightarrow> Map_set (map (\<lambda>a. (a, f a)) ks) k v = map (\<lambda>a. (a, f a)) ks @ [(k, v)]"
  by (induction ks) auto

lemma Map_set_old:
  "k \<in> set ks \<Longrightarrow> distinct ks \<Longrightarrow>
   Map_set (map (\<lambda>a. (a, f a)) ks) k v = map (\<lambda>a. (a, if a = k then v else f a)) ks"
proof (induction ks)
  case Nil
  then show ?case by simp
next
  case (Cons x ks)
  show ?case
  proof (cases "x = k")
    case True
    then have "k \<notin> set ks" using Cons.prems(2) by simp
    then have "map (\<lambda>a. (a, f a)) ks = map (\<lambda>a. (a, if a = k then v else f a)) ks"
      by (induction ks) auto
    then show ?thesis using True by simp
  next
    case False
    then show ?thesis using Cons by simp
  qed
qed

lemma fold_plus_sum: "fold (\<lambda>b a. a + b) (xs :: int list) a = a + sum_list xs"
  by (induction xs arbitrary: a) auto

lemma avgScore_mean: "avgScore xs = mean xs"
  by (simp add: avgScore_def mean_def fold_plus_sum)

lemma archetypeScores_groups:
  "archetypeScores sims =
     map (\<lambda>a. (a, scores_of sims a)) (first_seen (map match_archetype sims))"
proof (induction sims rule: rev_induct)
  case Nil
  then show ?case by (simp add: archetypeScores_def)
next
  case (snoc x xs)
  let ?k = "match_archetype x"
  let ?ks = "first_seen (map match_archetype xs)"
  let ?m = "map (\<lambda>a. (a, scores_of xs a)) ?ks"
  have step: "archetypeScores (xs @ [x]) = archetype_step x ?m"
    using snoc by (simp add: archetypeScores_def)
  show ?case
  proof (cases "?k \<in> set (map match_archetype xs)")
    case True
    then have in_ks: "?k \<in> set ?ks" by simp
    have "archetype_step x ?m = Map_set ?m ?k (scores_of xs ?k @ [compatibility_score x])"
      using in_ks by (simp add: archetype_step_def Map_has_keys Map_get_keys)
    also have "\<dots> = map (\<lambda>a. (a, if a = ?k then scores_of xs ?k @ [compatibility_score x]
                                    else scores_of xs a)) ?ks"
      using in_ks by (simp add: Map_set_old)
    also have "\<dots> = map (\<lambda>a. (a, scores_of (xs @ [x]) a)) ?ks"
      by (auto simp: scores_of_def)
    finally show ?thesis
      using True step by (simp add: first_seen_snoc)
  next
    case False
    then have out: "?k \<notin> set ?ks" by simp
    have "\<forall>s \<in> set xs. match_archetype s \<noteq> ?k"
    proof
      fix s assume "s \<in> set xs"
      then have "match_archetype s \<in> set (map match_archetype xs)" by simp
      then show "match_archetype s \<noteq> ?k" using False by metis
    qed
    then have none: "scores_of xs ?k = []"
      by (simp add: scores_of_def filter_empty_conv)
    have neq: "\<forall>a \<in> set ?ks. a \<noteq> ?k" using out by blast
    have "archetype_step x ?m = Map_set (?m @ [(?k, [])]) ?k ([] @ [compatibility_score x])"
    proof -
      have a: "Map_set ?m ?k [] = ?m @ [(?k, [])]" using out by (rule Map_set_new)
      have "?m @ [(?k, [])] = map (\<lambda>a. (a, scores_of xs a)) (?ks @ [?k])"
        using none by simp
      then have b: "Map_get (?m @ [(?k, [])]) ?k = Some []"
        using none by (simp only: Map_get_keys) simp
      show ?thesis
        using out by (simp add: archetype_step_def Map_has_keys a b Let_def)
    qed
    also have "\<dots> = ?m @ [(?k, [compatibility_score x])]"
    proof -
      have "?m @ [(?k, [])] = map (\<lambda>a. (a, scores_of xs a)) (?ks @ [?k])"
        using none by simp
      moreover have "distinct (?ks @ [?k])" using out by simp
      ultimately have "Map_set (?m @ [(?k, [])]) ?k [compatibility_score x] =
         map (\<lambda>a. (a, if a = ?k then [compatibility_score x] else scores_of xs a)) (?ks @ [?k])"
        using Map_set_old [of ?k "?ks @ [?k]" "scores_of xs" "[compatibility_score x]"] by simp
      also have "\<dots> = ?m @ [(?k, [compatibility_score x])]"
        using neq by auto
      finally show ?thesis by simp
    qed
    also have "\<dots> = map (\<lambda>a. (a, scores_of (xs @ [x]) a)) (?ks @ [?k])"
      using neq none by (auto simp: scores_of_def)
    finally show ?thesis
      using False step by (simp add: first_seen_snoc)
  qed
qed

lemma insort_key_neg_pairs:
  "insort_key (\<lambda>x. - snd x) (a, g a) (map (\<lambda>a. (a, g a)) ks) =
     map (\<lambda>a. (a, g a)) (insort_key (\<lambda>a. - g a) a ks)"
  by (induction ks) auto

lemma sort_desc_pairs:
  "map fst (sort_desc snd (map (\<lambda>a. (a, g a)) ks)) = sort_desc g ks"
proof -
  have "sort_key (\<lambda>x. - snd x) (map (\<lambda>a. (a, g a)) ks) =
          map (\<lambda>a. (a, g a)) (sort_key (\<lambda>a. - g a) ks)"
    by (induction ks) (auto simp: insort_key_neg_pairs)
  then show ?thesis by (simp add: sort_desc_def comp_def)
qed

lemma sort_desc_sorted:
  fixes key :: "'a \<Rightarrow> 'b::{linorder, ordered_ab_group_add}"
  shows "sorted_wrt (\<lambda>x y. key x \<ge> key y) (sort_desc key xs)"
proof -
  have "sorted (map (\<lambda>x. - key x) (sort_key (\<lambda>x. - key x) xs))" by (rule sorted_sort_key)
  then show ?thesis by (simp add: sort_desc_def sorted_map)
qed

lemma sort_desc_stable:
  fixes key :: "'a \<Rightarrow> 'b::{linorder, ordered_ab_group_add}"
  shows "filter (\<lambda>x. key x = k) (sort_desc key xs) = filter (\<lambda>x. key x = k) xs"
proof -
  have "filter (\<lambda>x. - key x = - k) (sort_key (\<lambda>x. - key x) xs) = filter (\<lambda>x. - key x = - k) xs"
    by (rule sort_key_stable)
  then show ?thesis by (simp add: sort_desc_def)
qed

lemma topArchetypes_ranked: "topArchetypes sims = take 5 (ranked_archetypes sims)"
proof -
  have "map (\<lambda>(archetype, scores). (archetype, avgScore scores)) (archetypeScores sims) =
        map (\<lambda>a. (a, mean (scores_of sims a))) (first_seen (map match_archetype sims))"
    by (simp add: archetypeScores_groups avgScore_mean comp_def)
  then show ?thesis
    by (simp add: topArchetypes_def ranked_archetypes_def sort_desc_pairs take_map [symmetric])
qed

lemma summary_of_run:
  assumes "runSimulations api rnds p h = Some summary"
  shows "\<exists>v. summary =
     analyzeSimulations (map (\<lambda>i. generateSimulation (rnds i) i) [0..<50]) v p"
  using assms runSimulations_total [of api rnds p h] by auto

text \<open>
  C2. \<open>top_archetypes\<close> is the first five of the ranked archetypes: the scores are
  grouped by archetype label, the groups are ordered by descending mean score, and groups
  of equal mean stay in first-seen order. The ranked list has each label of the batch
  once, so \<open>top_archetypes\<close> has at most 5 entries and at most as many as there are
  distinct archetypes in the batch. The summary of a run is computed in this way from
  the 50 generated records.
\<close>

theorem top_archetypes_ranking:
  "top_archetypes (analyzeSimulations sims v p) = take 5 (ranked_archetypes sims) \<and>
   sorted_wrt (\<lambda>a b. mean (scores_of sims a) \<ge> mean (scores_of sims b)) (ranked_archetypes sims) \<and>
   (\<forall>m. filter (\<lambda>a. mean (scores_of sims a) = m) (ranked_archetypes sims) =
        filter (\<lambda>a. mean (scores_of sims a) = m) (first_seen (map match_archetype sims))) \<and>
   distinct (ranked_archetypes sims) \<and>
   set (ranked_archetypes sims) = match_archetype ` set sims \<and>
   length (top_archetypes (analyzeSimulations sims v p)) \<le> 5 \<and>
   length (top_archetypes (analyzeSimulations sims v p)) \<le> card (match_archetype ` set sims) \<and>
   (runSimulations api rnds p h = Some summary \<longrightarrow>
      top_archetypes summary =
        take 5 (ranked_archetypes (map (\<lambda>i. generateSimulation (rnds i) i) [0..<50])))"
proof -
  have top: "\<And>sims v. top_archetypes (analyzeSimulations sims v p) = take 5 (ranked_archetypes sims)"
    by (simp add: analyzeSimulations_def Let_def topArchetypes_ranked)
  have d: "distinct (ranked_archetypes sims)"
    by (simp add: ranked_archetypes_def sort_desc_def)
  have s: "set (ranked_archetypes sims) = match_archetype ` set sims"
    by (simp add: ranked_archetypes_def sort_desc_def)
  have "length (ranked_archetypes sims) = card (match_archetype ` set sims)"
    using d s distinct_card by metis
  then have len: "length (take 5 (ranked_archetypes sims)) \<le> card (match_archetype ` set sims)"
    by simp
  have run: "runSimulations api rnds p h = Some summary \<Longrightarrow>
      top_archetypes summary =
        take 5 (ranked_archetypes (map (\<lambda>i. generateSimulation (rnds i) i) [0..<50]))"
    using summary_of_run top by blast
  show ?thesis
    unfolding top using d s len run
    by (simp add: ranked_archetypes_def sort_desc_sorted sort_desc_stable)
qed

theorem top_archetypes_ranking_witness:
  "top_archetypes (analyzeSimulations example_batch example_vibe example_profile) =
     [''B'', ''A'', ''C''] \<and>
   (\<exists>summary. runSimulations ApiNoText (\<lambda>i. 1 / 2) example_profile [] = Some summary \<and>
      top_archetypes summary =
        [''Adventurous Extrovert'', ''Thoughtful Introvert'', ''Creative Free Spirit'',
         ''Ambitious Professional'', ''Laid-back Homebody''])"
proof -
  obtain summary where
    run: "runSimulations ApiNoText (\<lambda>i. 1 / 2) example_profile [] = Some summary"
    using runSimulations_total by blast
  have both: "top_archetypes (analyzeSimulations example_batch example_vibe example_profile) =
       take 5 (ranked_archetypes example_batch) \<and>
     top_archetypes summary =
        take 5 (ranked_archetypes (map (\<lambda>i. generateSimulation (1 / 2) i) [0..<50]))"
    using run top_archetypes_ranking [of example_batch example_vibe example_profile
        ApiNoText "\<lambda>i. 1 / 2" "[]" summary]
    by blast
  have batch: "take 5 (ranked_archetypes example_batch) = [''B'', ''A'', ''C'']"
    by (simp add: ranked_archetypes_def sort_desc_def first_seen_def scores_of_def mean_def
      example_batch_def example_sim_def)
  have "topArchetypes (map (\<lambda>i. generateSimulation (1 / 2) i) [0..<50]) =
     [''Adventurous Extrovert'', ''Thoughtful Introvert'', ''Creative Free Spirit'',
      ''Ambitious Professional'', ''Laid-back Homebody'']"
    by code_simp
  then have gen: "take 5 (ranked_archetypes (map (\<lambda>i. generateSimulation (1 / 2) i) [0..<50])) =
     [''Adventurous Extrovert'', ''Thoughtful Introvert'', ''Creative Free Spirit'',
      ''Ambitious Professional'', ''Laid-back Homebody'']"
    by (simp only: topArchetypes_ranked)
  show ?thesis using both run batch gen by simp
qed

section \<open>Common issues\<close>

lemma simulation_issues_reported:
  "simulation_issues sims = reported (map potential_issue sims)"
  by (induction sims) (auto simp: simulation_issues_def reported_def)

lemma issueFrequency_counts:
  "issueFrequency xs = map (\<lambda>i. (i, int (count_list xs i))) (first_seen xs)"
proof (induction xs rule: rev_induct)
  case Nil
  then show ?case by (simp add: issueFrequency_def)
next
  case (snoc x xs)
  let ?ks = "first_seen xs"
  let ?m = "map (\<lambda>i. (i, int (count_list xs i))) ?ks"
  have step: "issueFrequency (xs @ [x]) = issue_step x ?m"
    using snoc by (simp add: issueFrequency_def)
  show ?case
  proof (cases "x \<in> set xs")
    case True
    then have in_ks: "x \<in> set ?ks" by simp
    have pos: "count_list xs x \<noteq> 0" using True by (simp add: count_list_0_iff)
    have "issue_step x ?m = Map_set ?m x (int (count_list xs x) + 1)"
      using in_ks pos by (simp add: issue_step_def Map_get_keys num_or_def)
    also have "\<dots> = map (\<lambda>i. (i, if i = x then int (count_list xs x) + 1 else int (count_list xs i))) ?ks"
      using in_ks by (simp add: Map_set_old)
    also have "\<dots> = map (\<lambda>i. (i, int (count_list (xs @ [x]) i))) ?ks"
      by auto
    finally show ?thesis using True step by (simp add: first_seen_snoc)
  next
    case False
    then have out: "x \<notin> set ?ks" by simp
    have neq: "\<forall>i \<in> set ?ks. i \<noteq> x" using out by blast
    have "issue_step x ?m = Map_set ?m x 1"
      using out by (simp add: issue_step_def Map_get_keys num_or_def)
    also have "\<dots> = ?m @ [(x, 1)]" using out by (rule Map_set_new)
    also have "\<dots> = map (\<lambda>i. (i, int (count_list (xs @ [x]) i))) (?ks @ [x])"
      using neq False by (auto simp: count_list_0_iff)
    finally show ?thesis using False step by (simp add: first_seen_snoc)
  qed
qed

lemma commonIssues_ranked: "commonIssues sims = take 3 (ranked_issues sims)"
  by (simp add: commonIssues_def ranked_issues_def ranked_labels_def issueFrequency_counts
      simulation_issues_reported sort_desc_pairs take_map [symmetric])

lemma set_reported: "set (reported os) = {i. Some i \<in> set os}"
  by (induction os) (auto simp: reported_def split: option.splits)

lemma generated_issue:
  "potential_issue (generateSimulation r i) = issues ! (i mod 5)"
  by (simp add: generateSimulation_def issues_def Let_def)

lemma run_issues_ranked:
  "ranked_labels (reported (map (\<lambda>i. issues ! (i mod 5)) [0..<50])) =
     [''May come across as too eager - balance enthusiasm with letting conversation breathe'',
      ''Could benefit from asking more follow-up questions to show genuine interest'',
      ''Responses might be too brief - consider sharing a bit more to keep momentum'',
      ''Watch for over-sharing too early - build rapport gradually'']"
  by code_simp

lemma run_common_issues:
  "commonIssues (map (\<lambda>i. generateSimulation (rnds i) i) [0..<50]) =
     [''May come across as too eager - balance enthusiasm with letting conversation breathe'',
      ''Could benefit from asking more follow-up questions to show genuine interest'',
      ''Responses might be too brief - consider sharing a bit more to keep momentum'']"
proof -
  have "map potential_issue (map (\<lambda>i. generateSimulation (rnds i) i) [0..<50]) =
        map (\<lambda>i. issues ! (i mod 5)) [0..<50]"
    by (simp only: map_map comp_def generated_issue)
  then show ?thesis
    by (simp only: commonIssues_ranked ranked_issues_def run_issues_ranked) simp
qed

text \<open>
  C3. \<open>common_issues\<close> is the first three of the ranked issues: the issue strings that
  the records report, each once, in descending order of the number of records that report
  them, strings of equal count in first-seen order. Every entry is the issue of some
  record, so a record without an issue contributes nothing. In a run the records cycle
  through the four issue templates and the empty slot, each template is reported ten
  times, and \<open>common_issues\<close> is the first three templates whatever the random draws;
  none of them is the empty string.
\<close>

theorem common_issues_ranking:
  "common_issues (analyzeSimulations sims v p) = take 3 (ranked_issues sims) \<and>
   sorted_wrt (\<lambda>a b. count_list (reported (map potential_issue sims)) a
                    \<ge> count_list (reported (map potential_issue sims)) b) (ranked_issues sims) \<and>
   (\<forall>n. filter (\<lambda>a. count_list (reported (map potential_issue sims)) a = n) (ranked_issues sims) =
        filter (\<lambda>a. count_list (reported (map potential_issue sims)) a = n)
          (first_seen (reported (map potential_issue sims)))) \<and>
   distinct (ranked_issues sims) \<and>
   set (ranked_issues sims) = {i. Some i \<in> potential_issue ` set sims} \<and>
   length (common_issues (analyzeSimulations sims v p)) \<le> 3 \<and>
   (runSimulations api rnds p h = Some summary \<longrightarrow>
      common_issues summary =
        [''May come across as too eager - balance enthusiasm with letting conversation breathe'',
         ''Could benefit from asking more follow-up questions to show genuine interest'',
         ''Responses might be too brief - consider sharing a bit more to keep momentum''] \<and>
      [] \<notin> set (common_issues summary))"
proof -
  let ?is = "reported (map potential_issue sims)"
  have top: "\<And>sims v. common_issues (analyzeSimulations sims v p) = take 3 (ranked_issues sims)"
    by (simp add: analyzeSimulations_def Let_def commonIssues_ranked)
  have srt: "sorted_wrt (\<lambda>a b. int (count_list ?is a) \<ge> int (count_list ?is b)) (ranked_issues sims)"
    unfolding ranked_issues_def ranked_labels_def by (rule sort_desc_sorted)
  have stab: "\<And>n. filter (\<lambda>a. int (count_list ?is a) = int n) (ranked_issues sims) =
        filter (\<lambda>a. int (count_list ?is a) = int n) (first_seen ?is)"
    unfolding ranked_issues_def ranked_labels_def by (rule sort_desc_stable)
  have d: "distinct (ranked_issues sims)"
    by (simp add: ranked_issues_def ranked_labels_def sort_desc_def)
  have s: "set (ranked_issues sims) = {i. Some i \<in> potential_issue ` set sims}"
    by (simp add: ranked_issues_def ranked_labels_def sort_desc_def set_reported)
  have run: "runSimulations api rnds p h = Some summary \<Longrightarrow>
      common_issues summary =
        [''May come across as too eager - balance enthusiasm with letting conversation breathe'',
         ''Could benefit from asking more follow-up questions to show genuine interest'',
         ''Responses might be too brief - consider sharing a bit more to keep momentum'']"
  proof -
    assume "runSimulations api rnds p h = Some summary"
    then obtain v' where
      "summary = analyzeSimulations (map (\<lambda>i. generateSimulation (rnds i) i) [0..<50]) v' p"
      using summary_of_run by blast
    then have "common_issues summary =
        commonIssues (map (\<lambda>i. generateSimulation (rnds i) i) [0..<50])"
      by (simp add: analyzeSimulations_def Let_def)
    then show ?thesis by (simp only: run_common_issues)
  qed
  show ?thesis
    unfolding top using srt stab d s run by simp
qed

theorem common_issues_ranking_witness:
  "common_issues (analyzeSimulations example_batch example_vibe example_profile) =
     [''ask a question'', ''too eager''] \<and>
   (\<exists>summary. runSimulations ApiNoText (\<lambda>i. 1 / 2) example_profile [] = Some summary \<and>
      common_issues summary =
        [''May come across as too eager - balance enthusiasm with letting conversation breathe'',
         ''Could benefit from asking more follow-up questions to show genuine interest'',
         ''Responses might be too brief - consider sharing a bit more to keep momentum''])"
proof -
  obtain summary where
    run: "runSimulations ApiNoText (\<lambda>i. 1 / 2) example_profile [] = Some summary"
    using runSimulations_total by blast
  have both: "common_issues (analyzeSimulations example_batch example_vibe example_profile) =
       take 3 (ranked_issues example_batch) \<and>
     common_issues summary =
        [''May come across as too eager - balance enthusiasm with letting conversation breathe'',
         ''Could benefit from asking more follow-up questions to show genuine interest'',
         ''Responses might be too brief - consider sharing a bit more to keep momentum'']"
    using run common_issues_ranking [of example_batch example_vibe example_profile
        ApiNoText "\<lambda>i. 1 / 2" "[]" summary]
    by blast
  have "take 3 (ranked_issues example_batch) = [''ask a question'', ''too eager'']"
    by (simp add: ranked_issues_def ranked_labels_def reported_def sort_desc_def first_seen_def
      example_batch_def example_sim_def)
  then show ?thesis using both run by simp
qed

section \<open>Coaching tips\<close>

lemma str_includes_iff: "str_includes s sub \<longleftrightarrow> (\<exists>u v. s = u @ sub @ v)"
proof (induction s)
  case Nil
  then show ?case by auto
next
  case (Cons c cs)
  show ?case
  proof
    assume "str_includes (c # cs) sub"
    then consider "take (length sub) (c # cs) = sub" | "str_includes cs sub" by auto
    then show "\<exists>u v. c # cs = u @ sub @ v"
    proof cases
      case 1
      then have "c # cs = [] @ sub @ drop (length sub) (c # cs)"
        by (metis append_Nil append_take_drop_id)
      then show ?thesis by blast
    next
      case 2
      then obtain u v where "cs = u @ sub @ v" using Cons.IH by blast
      then have "c # cs = (c # u) @ sub @ v" by simp
      then show ?thesis by blast
    qed
  next
    assume "\<exists>u v. c # cs = u @ sub @ v"
    then obtain u v where uv: "c # cs = u @ sub @ v" by blast
    show "str_includes (c # cs) sub"
    proof (cases u)
      case Nil
      then have "take (length sub) (c # cs) = sub" using uv by simp
      then show ?thesis by simp
    next
      case (Cons a u')
      then have "cs = u' @ sub @ v" using uv by simp
      then have "str_includes cs sub" using Cons.IH by blast
      then show ?thesis by simp
    qed
  qed
qed

text \<open>
  C4. \<open>coaching_tips\<close> is the list of the tips of the rules that fire, in the order of
  the rules, cut to its first five: one tip for the band of the average (from 75, from
  60, below), one if positivity is below 50, one if playfulness is below 40 and another
  if it is above 80, one if response length is below 30 and another if it is above 80,
  one if some common issue contains \<open>question\<close>, one if some common issue contains
  \<open>eager\<close> or \<open>enthusias\<close>. It has between 1 and 5 entries.
\<close>

theorem coaching_tips_rules:
  "generateCoachingTips p v is avg =
     take 5
       ([if avg \<ge> 75 then tip_strong else if avg \<ge> 60 then tip_potential else tip_refine] @
        (if positivity (textingTone p) < 50 then [tip_positive] else []) @
        (if playfulness (textingTone p) < 40 then [tip_playful] else []) @
        (if playfulness (textingTone p) > 80 then [tip_depth] else []) @
        (if responseLength (textingTone p) < 30 then [tip_brief] else []) @
        (if responseLength (textingTone p) > 80 then [tip_concise] else []) @
        (if \<exists>issue \<in> set is. \<exists>u w. issue = u @ ''question'' @ w then [tip_questions] else []) @
        (if \<exists>issue \<in> set is.
              (\<exists>u w. issue = u @ ''eager'' @ w) \<or> (\<exists>u w. issue = u @ ''enthusias'' @ w)
         then [tip_breathe] else [])) \<and>
   coaching_tips (analyzeSimulations sims v p) =
     generateCoachingTips p v (common_issues (analyzeSimulations sims v p))
       (average_compatibility (analyzeSimulations sims v p)) \<and>
   1 \<le> length (generateCoachingTips p v is avg) \<and>
   length (generateCoachingTips p v is avg) \<le> 5"
proof -
  have tips: "coaching_tips (analyzeSimulations sims v p) =
     generateCoachingTips p v (common_issues (analyzeSimulations sims v p))
       (average_compatibility (analyzeSimulations sims v p))"
    by (simp add: analyzeSimulations_def Let_def)
  have push: "\<And>c (xs :: string list) t. (if c then xs @ [t] else xs) = xs @ (if c then [t] else [])"
    by simp
  have push2: "\<And>c (xs :: string list) a b. (if c then xs @ a else xs @ b) = xs @ (if c then a else b)"
    by simp
  have play: "(if playfulness (textingTone p) < 40 then [tip_playful]
       else if playfulness (textingTone p) > 80 then [tip_depth] else []) =
     (if playfulness (textingTone p) < 40 then [tip_playful] else []) @
     (if playfulness (textingTone p) > 80 then [tip_depth] else [])"
    by simp
  have resp: "(if responseLength (textingTone p) < 30 then [tip_brief]
       else if responseLength (textingTone p) > 80 then [tip_concise] else []) =
     (if responseLength (textingTone p) < 30 then [tip_brief] else []) @
     (if responseLength (textingTone p) > 80 then [tip_concise] else [])"
    by simp
  have band: "(if avg \<ge> 75 then [tip_strong] else if avg \<ge> 60 then [tip_potential]
       else [tip_refine]) =
     [if avg \<ge> 75 then tip_strong else if avg \<ge> 60 then tip_potential else tip_refine]"
    by simp
  have eq: "generateCoachingTips p v is avg =
     take 5
       ([if avg \<ge> 75 then tip_strong else if avg \<ge> 60 then tip_potential else tip_refine] @
        (if positivity (textingTone p) < 50 then [tip_positive] else []) @
        (if playfulness (textingTone p) < 40 then [tip_playful] else []) @
        (if playfulness (textingTone p) > 80 then [tip_depth] else []) @
        (if responseLength (textingTone p) < 30 then [tip_brief] else []) @
        (if responseLength (textingTone p) > 80 then [tip_concise] else []) @
        (if \<exists>issue \<in> set is. \<exists>u w. issue = u @ ''question'' @ w then [tip_questions] else []) @
        (if \<exists>issue \<in> set is.
              (\<exists>u w. issue = u @ ''eager'' @ w) \<or> (\<exists>u w. issue = u @ ''enthusias'' @ w)
         then [tip_breathe] else []))"
    by (simp only: generateCoachingTips_def Let_def list_ex_iff str_includes_iff push push2
        play resp band append_assoc append_Nil)
  have bound: "\<And>x (r :: string list).
      1 \<le> length (take 5 ([x] @ r)) \<and> length (take 5 ([x] @ r)) \<le> 5"
    by simp
  have len: "1 \<le> length (generateCoachingTips p v is avg) \<and>
     length (generateCoachingTips p v is avg) \<le> 5"
    unfolding eq by (rule bound)
  show ?thesis by (rule conjI [OF eq conjI [OF tips len]])
qed

theorem coaching_tips_rules_witness:
  "generateCoachingTips example_profile example_vibe
      [''too eager'', ''ask a question''] 58 =
     [tip_refine, tip_positive, tip_playful, tip_brief, tip_questions] \<and>
   generateCoachingTips (example_profile\<lparr>textingTone :=
        \<lparr>positivity = 50, playfulness = 81, responseLength = 81\<rparr>\<rparr>) example_vibe [] 75 =
     [tip_strong, tip_depth, tip_concise]"
proof -
  have q: "\<exists>issue \<in> set [''too eager'', ''ask a question'']. \<exists>u w. issue = u @ ''question'' @ w"
    using str_includes_iff [of "''ask a question''" "''question''"] by simp
  have e: "\<exists>issue \<in> set [''too eager'', ''ask a question''].
      (\<exists>u w. issue = u @ ''eager'' @ w) \<or> (\<exists>u w. issue = u @ ''enthusias'' @ w)"
    using str_includes_iff [of "''too eager''" "''eager''"] by simp
  have 1: "generateCoachingTips example_profile example_vibe
      [''too eager'', ''ask a question''] 58 =
     [tip_refine, tip_positive, tip_playful, tip_brief, tip_questions]"
    using coaching_tips_rules [of example_profile example_vibe
        "[''too eager'', ''ask a question'']" 58, THEN conjunct1] q e
    by (simp add: example_profile_def)
  have 2: "generateCoachingTips (example_profile\<lparr>textingTone :=
        \<lparr>positivity = 50, playfulness = 81, responseLength = 81\<rparr>\<rparr>) example_vibe [] 75 =
     [tip_strong, tip_depth, tip_concise]"
    using coaching_tips_rules [of "example_profile\<lparr>textingTone :=
        \<lparr>positivity = 50, playfulness = 81, responseLength = 81\<rparr>\<rparr>" example_vibe "[]" 75,
        THEN conjunct1]
    by simp
  show ?thesis using 1 2 by simp
qed

section \<open>The store under the request handlers\<close>

lemmas handler_defs =
  postProfile_def getProfileHandler_def postPhotos_def getPhotosVerification_def
  getChatHistoryHandler_def postChatMessage_def postSimulationsRun_def
  getSimulationsResults_def getProfile_def saveProfile_def addMessage_def updateProfile_def
  saveSimulationResults_def getChatHistory_def getSimulationResults_def

lemma handle_keeps_profile:
  "profile st \<noteq> None \<Longrightarrow> profile (snd (handle r st)) \<noteq> None"
  by (cases r) (auto simp: handler_defs Let_def split: option.splits)

lemma serve_keeps_profile:
  "profile st \<noteq> None \<Longrightarrow> profile (serve rs st) \<noteq> None"
proof (induction rs arbitrary: st)
  case Nil
  then show ?case by simp
next
  case (Cons r rs)
  have "profile (snd (handle r st)) \<noteq> None"
    using Cons.prems by (rule handle_keeps_profile)
  then have "profile (serve rs (snd (handle r st))) \<noteq> None"
    by (rule Cons.IH)
  then show ?case by simp
qed

lemma postPhotos_success:
  assumes "profile st = Some p" and "fs \<noteq> []"
  shows "postPhotos (Some fs) rnd st =
           (PhotosUploaded fs (analyzePhotos rnd fs), st\<lparr>profile := Some (p\<lparr>photos := fs\<rparr>)\<rparr>)"
  using assms
  by (simp add: postPhotos_def getProfile_def updateProfile_def spread_profile_def spread_def
      no_updates_def Let_def)

text \<open>
  C6, as amended. A successful upload (a profile is stored and at least one file
  arrives) sets the profile's photo list to exactly the uploaded filenames, in place of
  whatever the list held, and leaves every other field of the profile, the transcript
  and the stored summary unchanged. No request handler removes a stored profile, whatever
  the sequence of requests; \<open>reset\<close> does.
\<close>

theorem postPhotos_replaces_photos:
  assumes "profile st = Some p" and "fs \<noteq> []"
  shows "\<exists>p'. fst (postPhotos (Some fs) rnd st) = PhotosUploaded fs (analyzePhotos rnd fs) \<and>
           profile (snd (postPhotos (Some fs) rnd st)) = Some p' \<and>
           photos p' = fs \<and>
           profile_id p' = profile_id p \<and> name p' = name p \<and> ageRange p' = ageRange p \<and>
           gender p' = gender p \<and> interestedIn p' = interestedIn p \<and> bio p' = bio p \<and>
           relationshipGoals p' = relationshipGoals p \<and> textingTone p' = textingTone p \<and>
           selfRatedAttractiveness p' = selfRatedAttractiveness p \<and>
           createdAt p' = createdAt p \<and>
           chatHistory (snd (postPhotos (Some fs) rnd st)) = chatHistory st \<and>
           simulationResults (snd (postPhotos (Some fs) rnd st)) = simulationResults st \<and>
           (\<forall>rs s. profile s \<noteq> None \<longrightarrow> profile (serve rs s) \<noteq> None) \<and>
           profile (reset st) = None"
  using postPhotos_success [OF assms, of rnd] serve_keeps_profile
  by (simp add: reset_def)

theorem postPhotos_replaces_photos_witness:
  "\<exists>p'. fst (postPhotos (Some [''b.jpg'', ''c.jpg'']) (1 / 2) example_storage) =
            PhotosUploaded [''b.jpg'', ''c.jpg''] (analyzePhotos (1 / 2) [''b.jpg'', ''c.jpg'']) \<and>
        profile (snd (postPhotos (Some [''b.jpg'', ''c.jpg'']) (1 / 2) example_storage)) = Some p' \<and>
        photos p' = [''b.jpg'', ''c.jpg''] \<and> name p' = ''Ann'' \<and> createdAt p' = 7"
  using postPhotos_replaces_photos [of example_storage example_profile "[''b.jpg'', ''c.jpg'']" "1 / 2"]
  by (auto simp: example_storage_def example_profile_def)

text \<open>
  An upload does not add to the list it finds: the example profile holds \<open>a.jpg\<close>, and
  after it uploads \<open>b.jpg\<close> its photo list is \<open>[b.jpg]\<close>, without \<open>a.jpg\<close>.
\<close>

theorem postPhotos_adds_counterexample:
  "\<exists>p'. profile (snd (postPhotos (Some [''b.jpg'']) (1 / 2) example_storage)) = Some p' \<and>
        photos p' = [''b.jpg''] \<and>
        photos p' \<noteq> photos example_profile @ [''b.jpg''] \<and>
        ''a.jpg'' \<in> set (photos example_profile) \<and>
        ''a.jpg'' \<notin> set (photos p')"
  by (simp add: postPhotos_def getProfile_def updateProfile_def spread_profile_def spread_def
      no_updates_def Let_def example_storage_def example_profile_def)

section \<open>Texting-tone defaults\<close>

text \<open>
  What the handler does when the body has a \<open>textingTone\<close> object: the profile is
  stored, each of positivity, playfulness and response length that is missing from the
  object is stored as 50, and a field that is present with a value other than 0 is
  stored as it is.
\<close>

lemma tone_fields_default_in_object:
  assumes "d_textingTone profileData = Some tone"
  shows "\<exists>p. profile (snd (postProfile profileData id1 now1 id2 now2 st)) = Some p \<and>
    (d_positivity tone = None \<longrightarrow> positivity (textingTone p) = 50) \<and>
    (d_playfulness tone = None \<longrightarrow> playfulness (textingTone p) = 50) \<and>
    (d_responseLength tone = None \<longrightarrow> responseLength (textingTone p) = 50) \<and>
    (\<forall>n. d_positivity tone = Some n \<and> n \<noteq> 0 \<longrightarrow> positivity (textingTone p) = n) \<and>
    (\<forall>n. d_playfulness tone = Some n \<and> n \<noteq> 0 \<longrightarrow> playfulness (textingTone p) = n) \<and>
    (\<forall>n. d_responseLength tone = Some n \<and> n \<noteq> 0 \<longrightarrow> responseLength (textingTone p) = n)"
  using assms by (auto simp add: handler_defs Let_def num_or_def)

lemma no_tone_object:
  "d_textingTone profileData = None \<Longrightarrow>
   postProfile profileData id1 now1 id2 now2 st =
     (Failure 500 ''Cannot read properties of undefined (reading 'positivity')'', st)"
  by (simp add: postProfile_def)

text \<open>
  C7. A profile-creation request whose texting-tone fields are missing should end with
  a stored profile whose texting-tone fields are 50. The handler defaults each field
  with \<^verbatim>\<open>|| 50\<close>, but it reads the fields from \<^verbatim>\<open>profileData.textingTone\<close> without a
  check: for a body without the \<open>textingTone\<close> object, which has none of the three
  fields, the read throws, the request is answered 500 with the engine's message, and no
  profile is stored, so nothing is defaulted.
\<close>

theorem missing_tone_object_not_defaulted:
  "d_textingTone example_data_no_tone = None \<and>
   fst (postProfile example_data_no_tone ''u1'' 7 ''w1'' 8 storage_init) =
     Failure 500 ''Cannot read properties of undefined (reading 'positivity')'' \<and>
   profile (snd (postProfile example_data_no_tone ''u1'' 7 ''w1'' 8 storage_init)) = None \<and>
   (\<nexists>p. profile (snd (postProfile example_data_no_tone ''u1'' 7 ''w1'' 8 storage_init)) = Some p \<and>
      positivity (textingTone p) = 50)"
  by (simp add: postProfile_def example_data_no_tone_def example_data_def storage_init_def)

lemma num_or_nonzero: "d \<noteq> 0 \<Longrightarrow> num_or v d \<noteq> 0"
  by (simp add: num_or_def split: option.splits)

lemma handle_tone_ok: "tone_ok st \<Longrightarrow> tone_ok (snd (handle r st))"
  by (cases r)
    (auto simp: tone_ok_def handler_defs Let_def spread_profile_def spread_def no_updates_def
      num_or_nonzero split: option.splits)

lemma serve_tone_ok: "tone_ok st \<Longrightarrow> tone_ok (serve rs st)"
  by (induction rs arbitrary: st) (auto simp: handle_tone_ok)

lemma serve_init_tone:
  assumes "profile (serve rs storage_init) = Some p"
  shows "positivity (textingTone p) \<noteq> 0 \<and> playfulness (textingTone p) \<noteq> 0 \<and>
      responseLength (textingTone p) \<noteq> 0"
proof -
  have "tone_ok storage_init" by (simp add: tone_ok_def storage_init_def)
  then have "tone_ok (serve rs storage_init)" by (rule serve_tone_ok)
  with assms show ?thesis by (simp add: tone_ok_def)
qed

text \<open>
  C10. A texting-tone field that a profile-creation request carries with the value 0 is
  stored as 50. Hence, whatever requests the server has handled since it started, no
  texting-tone value of the stored profile is 0.
\<close>

theorem zero_tone_stored_as_50:
  "(d_textingTone profileData = Some tone \<longrightarrow>
      (\<exists>p. profile (snd (postProfile profileData id1 now1 id2 now2 st)) = Some p \<and>
        (d_positivity tone = Some 0 \<longrightarrow> positivity (textingTone p) = 50) \<and>
        (d_playfulness tone = Some 0 \<longrightarrow> playfulness (textingTone p) = 50) \<and>
        (d_responseLength tone = Some 0 \<longrightarrow> responseLength (textingTone p) = 50))) \<and>
   (\<forall>rs p. profile (serve rs storage_init) = Some p \<longrightarrow>
      positivity (textingTone p) \<noteq> 0 \<and> playfulness (textingTone p) \<noteq> 0 \<and>
      responseLength (textingTone p) \<noteq> 0)"
proof -
  have "d_textingTone profileData = Some tone \<Longrightarrow>
      (\<exists>p. profile (snd (postProfile profileData id1 now1 id2 now2 st)) = Some p \<and>
        (d_positivity tone = Some 0 \<longrightarrow> positivity (textingTone p) = 50) \<and>
        (d_playfulness tone = Some 0 \<longrightarrow> playfulness (textingTone p) = 50) \<and>
        (d_responseLength tone = Some 0 \<longrightarrow> responseLength (textingTone p) = 50))"
    by (auto simp add: handler_defs Let_def num_or_def)
  then show ?thesis using serve_init_tone by blast
qed

theorem zero_tone_stored_as_50_witness:
  "(\<exists>p. profile (snd (postProfile example_data ''u1'' 7 ''w1'' 8 storage_init)) = Some p \<and>
      playfulness (textingTone p) = 50) \<and>
   (\<exists>p. profile (serve [PostProfile example_data ''u1'' 7 ''w1'' 8] storage_init) = Some p \<and>
      positivity (textingTone p) \<noteq> 0 \<and> playfulness (textingTone p) \<noteq> 0 \<and>
      responseLength (textingTone p) \<noteq> 0)"
proof -
  have tone: "d_textingTone example_data = Some example_tone" "d_playfulness example_tone = Some 0"
    by (simp_all add: example_data_def example_tone_def)
  obtain p where p: "profile (snd (postProfile example_data ''u1'' 7 ''w1'' 8 storage_init)) = Some p"
      "playfulness (textingTone p) = 50"
    using zero_tone_stored_as_50 [of example_data example_tone "''u1''" 7 "''w1''" 8 storage_init] tone
    by auto
  then have "profile (serve [PostProfile example_data ''u1'' 7 ''w1'' 8] storage_init) = Some p"
    by simp
  then have "positivity (textingTone p) \<noteq> 0 \<and> playfulness (textingTone p) \<noteq> 0 \<and>
      responseLength (textingTone p) \<noteq> 0"
    using zero_tone_stored_as_50 [of example_data example_tone "''u1''" 7 "''w1''" 8 storage_init]
    by blast
  then show ?thesis using p by auto
qed

section \<open>The chat transcript\<close>









end
